theory Spec2Isabelle
  imports Main
begin

section \<open>Values, errors and the outside world\<close>

text \<open>
  The program is \<^verbatim>\<open>vision-books.py\<close>: a \<^verbatim>\<open>MediaTracker\<close> that once a day collects
  new audiobooks, new music and new physical books, hands them to a language-model
  server, builds a \<^verbatim>\<open>DailyUpdate\<close> and posts it.

  A \<^verbatim>\<open>datetime\<close> is its position on the time line in microseconds (the resolution of
  Python's \<^verbatim>\<open>datetime\<close>), so comparison and \<^verbatim>\<open>timedelta\<close> arithmetic are those of \<open>int\<close>.
\<close>

type_synonym datetime = int

definition timedelta_days :: "nat \<Rightarrow> int" where
  "timedelta_days n = int n * 86400000000"

definition timedelta_hours :: "nat \<Rightarrow> int" where
  "timedelta_hours n = int n * 3600000000"

text \<open>
  The raw items are \<^verbatim>\<open>Dict[str, Any]\<close>. The values the model distinguishes are strings,
  datetimes and \<^verbatim>\<open>None\<close>; a dictionary is a map from keys to values.
\<close>

datatype pyval = VStr string | VDatetime datetime | VNone

type_synonym pydict = "string \<rightharpoonup> pyval"

text \<open>
  Every exception of the model is a subclass of Python's \<^verbatim>\<open>Exception\<close>:
  \<^verbatim>\<open>KeyError\<close> (with the missing key), \<^verbatim>\<open>TypeError\<close>, \<^verbatim>\<open>ValueError\<close>, pydantic's
  \<^verbatim>\<open>ValidationError\<close>, \<^verbatim>\<open>cv2.error\<close>, the \<^verbatim>\<open>Exception\<close> that \<^verbatim>\<open>process_data\<close> raises
  (with the response text), and any exception raised inside an external call
  (a provider client, \<^verbatim>\<open>requests.post\<close>, \<^verbatim>\<open>response.json()\<close>).
\<close>

datatype error =
    KeyError string
  | TypeError
  | ValueError
  | ValidationError
  | CvError
  | LlamaServerError string
  | ExternalError string

record MediaItem =
  title :: string
  creator :: string
  item_type :: string
  timestamp :: datetime

record DailyUpdate =
  date :: datetime
  new_items :: "MediaItem list"

text \<open>
  An HTTP response as the code reads it: \<^verbatim>\<open>status_code\<close>, \<^verbatim>\<open>text\<close>, and the outcome of
  \<^verbatim>\<open>json()\<close>, which raises or yields an object whose entries are lists of records.
\<close>

record response =
  status_code :: int
  resp_text :: string
  resp_json :: "error + (string \<rightharpoonup> pydict list)"

datatype payload =
    LlamaPayload "(string \<times> MediaItem list) list" string
  | UpdatePayload DailyUpdate

text \<open>
  What the process does to the outside, in order: calls of \<^verbatim>\<open>requests.post\<close> (with the URL
  and the payload handed to it, whether or not the call then raises), printed lines,
  sleeps.
\<close>

datatype event =
    Post string payload
  | PrintFailedSend string
  | PrintSuccess "string list"
  | PrintError error
  | Sleep nat

text \<open>
  A frame is represented by what \<^verbatim>\<open>cv2\<close> extracts from it: the bounding rectangles
  \<open>(x, y, w, h)\<close> of its external contours, in the order \<^verbatim>\<open>findContours\<close> lists them.
\<close>

type_synonym rect = "int \<times> int \<times> int \<times> int"

type_synonym frame = "rect list"

text \<open>
  \<^verbatim>\<open>datetime.now()\<close> is read from a clock: the \<open>k\<close>-th reading of the process is
  \<open>clock k\<close>, and the state counts the readings made so far. A provider client is a
  method that may read the clock and returns a library or raises.
\<close>

type_synonym 'a client = "(nat \<Rightarrow> datetime) \<Rightarrow> nat \<Rightarrow> (error + 'a) \<times> nat"

text \<open>
  The environment of one cycle: the clock, the two provider clients held by the tracker,
  the frame the camera delivers (\<open>None\<close> when \<^verbatim>\<open>camera.read()\<close> yields no frame), the
  outcome of \<^verbatim>\<open>requests.post\<close> for a given URL and payload, and the two library parsers
  \<^verbatim>\<open>datetime.fromisoformat\<close> and pydantic's parser of datetime fields.

  \<^verbatim>\<open>requests.post\<close> is a call into a library: it either raises (no connection, or a
  payload that the library cannot serialise) or returns a response. The functions of the
  program take its outcome from the environment; \<open>library_post\<close> below is the
  environment in which a payload is serialised before anything is sent.
\<close>

record env =
  clock :: "nat \<Rightarrow> datetime"
  audible :: "pydict list client"
  spotify :: "pydict list client"
  camera_read :: "frame option"
  requests_post :: "string \<Rightarrow> payload \<Rightarrow> error + response"
  fromisoformat :: "string \<Rightarrow> datetime option"
  pydantic_datetime :: "string \<Rightarrow> datetime option"

record BookshelfScanner =
  last_scan :: "string set"

record MediaTracker =
  bookshelf_scanner :: BookshelfScanner
  last_update_time :: datetime

record world =
  tracker :: MediaTracker
  ticks :: nat
  trace :: "event list"

section \<open>Python primitives\<close>

definition bind_err :: "error + 'a \<Rightarrow> ('a \<Rightarrow> error + 'b) \<Rightarrow> error + 'b" where
  "bind_err r f = (case r of Inl err \<Rightarrow> Inl err | Inr x \<Rightarrow> f x)"

definition getitem :: "pydict \<Rightarrow> string \<Rightarrow> error + pyval" where
  "getitem d k = (case d k of None \<Rightarrow> Inl (KeyError k) | Some v \<Rightarrow> Inr v)"

text \<open>\<^verbatim>\<open>v > t\<close> for a datetime \<open>t\<close>: a \<^verbatim>\<open>TypeError\<close> unless \<open>v\<close> is a datetime.\<close>

definition py_gt :: "pyval \<Rightarrow> datetime \<Rightarrow> error + bool" where
  "py_gt v t = (case v of VDatetime d \<Rightarrow> Inr (t < d) | _ \<Rightarrow> Inl TypeError)"

definition digit_char :: "nat \<Rightarrow> char" where
  "digit_char d = char_of (48 + d)"

text \<open>\<^verbatim>\<open>str(n)\<close> for a natural number: its decimal digits.\<close>

fun str_nat :: "nat \<Rightarrow> string" where
  "str_nat n = (if n < 10 then [digit_char n] else str_nat (n div 10) @ [digit_char (n mod 10)])"

declare str_nat.simps [simp del]

text \<open>
  A list comprehension \<^verbatim>\<open>[f(x) for x in xs if c(x)]\<close> in which the condition or the
  element expression may raise: \<open>f x\<close> is \<open>Inr None\<close> when the condition is false, and the
  first exception, in list order, ends the comprehension.
\<close>

fun comprehension :: "('a \<Rightarrow> error + 'b option) \<Rightarrow> 'a list \<Rightarrow> error + 'b list" where
  "comprehension f [] = Inr []"
| "comprehension f (x # xs) =
     (case f x of
        Inl err \<Rightarrow> Inl err
      | Inr r \<Rightarrow>
         (case comprehension f xs of
            Inl err \<Rightarrow> Inl err
          | Inr rs \<Rightarrow> Inr (case r of None \<Rightarrow> rs | Some y \<Rightarrow> y # rs)))"

text \<open>
  \<^verbatim>\<open>list(set(titles) - seen)\<close>: the elements of \<open>titles\<close> that are not in \<open>seen\<close>, each
  once. Python fixes no order for the elements of a set; the model lists them in the
  order of their last occurrence in \<open>titles\<close>, and no theorem depends on the order.
\<close>

definition list_of_set_diff :: "string list \<Rightarrow> string set \<Rightarrow> string list" where
  "list_of_set_diff titles seen = filter (\<lambda>t. t \<notin> seen) (remdups titles)"

definition datetime_now :: "env \<Rightarrow> world \<Rightarrow> datetime \<times> world" where
  "datetime_now e w = (clock e (ticks w), w\<lparr>ticks := Suc (ticks w)\<rparr>)"

definition emit :: "event \<Rightarrow> world \<Rightarrow> world" where
  "emit ev w = w\<lparr>trace := trace w @ [ev]\<rparr>"

section \<open>The provider clients of the source\<close>

text \<open>
  \<^verbatim>\<open>AudibleClient.get_user_library\<close>: ten books, book \<open>i\<close> added \<open>i\<close> days before the
  reading of the clock made for it.
\<close>

definition AudibleClient_get_user_library :: "pydict list client" where
  "AudibleClient_get_user_library clk k =
     (Inr (map (\<lambda>i. [''title'' \<mapsto> VStr (''Audiobook '' @ str_nat i),
                      ''author'' \<mapsto> VStr (''Author '' @ str_nat i),
                      ''date_added'' \<mapsto> VDatetime (clk (k + i) - timedelta_days i)])
              [0..<10]),
      k + 10)"

text \<open>\<^verbatim>\<open>SpotifyClient.get_recently_played\<close>: five tracks, track \<open>i\<close> played \<open>i\<close> hours ago.\<close>

definition SpotifyClient_get_recently_played :: "pydict list client" where
  "SpotifyClient_get_recently_played clk k =
     (Inr (map (\<lambda>i. [''track'' \<mapsto> VStr (''Song '' @ str_nat i),
                      ''artist'' \<mapsto> VStr (''Artist '' @ str_nat i),
                      ''played_at'' \<mapsto> VDatetime (clk (k + i) - timedelta_hours i)])
              [0..<5]),
      k + 5)"

section \<open>BookshelfScanner\<close>

definition BookshelfScanner_init :: BookshelfScanner where
  "BookshelfScanner_init = \<lparr>last_scan = {}\<rparr>"

definition capture_image :: "env \<Rightarrow> frame option" where
  "capture_image e = camera_read e"

text \<open>
  The loop of \<^verbatim>\<open>process_image\<close> over the contours, with \<open>book_titles\<close> as accumulator:
  a rectangle wider than 50 and taller than 200 appends the title
  \<^verbatim>\<open>f"Book {len(book_titles) + 1}"\<close>.
\<close>

fun process_contours :: "rect list \<Rightarrow> string list \<Rightarrow> string list" where
  "process_contours [] book_titles = book_titles"
| "process_contours ((x, y, w, h) # contours) book_titles =
     (if w > 50 \<and> h > 200
      then process_contours contours
             (book_titles @ [''Book '' @ str_nat (length book_titles + 1)])
      else process_contours contours book_titles)"

text \<open>
  \<^verbatim>\<open>process_image\<close>: with no frame (\<^verbatim>\<open>None\<close>), \<^verbatim>\<open>cv2.cvtColor\<close> raises \<^verbatim>\<open>cv2.error\<close>.
\<close>

definition process_image :: "frame option \<Rightarrow> error + string list" where
  "process_image img =
     (case img of
        None \<Rightarrow> Inl CvError
      | Some contours \<Rightarrow> Inr (process_contours contours []))"

text \<open>
  \<^verbatim>\<open>get_new_books\<close>: an exception of \<^verbatim>\<open>process_image\<close> leaves the scanner as it was,
  since the assignment to \<^verbatim>\<open>last_scan\<close> comes after it.
\<close>

definition get_new_books :: "env \<Rightarrow> BookshelfScanner \<Rightarrow> (error + string list) \<times> BookshelfScanner" where
  "get_new_books e s =
     (case process_image (capture_image e) of
        Inl err \<Rightarrow> (Inl err, s)
      | Inr titles \<Rightarrow>
         (let current_books = set titles;
              new_books = list_of_set_diff titles (last_scan s)
          in (Inr new_books, s\<lparr>last_scan := current_books\<rparr>)))"

section \<open>LLaMAv3Client\<close>

definition server_url :: string where
  "server_url = ''https://ajaymisra.com/llama''"

definition process_data ::
  "env \<Rightarrow> (string \<times> MediaItem list) list \<Rightarrow> string \<Rightarrow> world \<Rightarrow> (error + pydict list) \<times> world" where
  "process_data e data prompt w =
     (let url = server_url @ ''/process'';
          pl = LlamaPayload data prompt;
          w1 = emit (Post url pl) w
      in case requests_post e url pl of
           Inl err \<Rightarrow> (Inl err, w1)
         | Inr resp \<Rightarrow>
            (if status_code resp = 200
             then (bind_err (resp_json resp)
                     (\<lambda>j. case j ''new_items'' of
                             None \<Rightarrow> Inl (KeyError ''new_items'')
                           | Some items \<Rightarrow> Inr items), w1)
             else (Inl (LlamaServerError (resp_text resp)), w1)))"

section \<open>MediaTracker\<close>

definition api_endpoint :: string where
  "api_endpoint = ''https://api.ajay.dog/media-updates''"

definition MediaTracker_init :: "env \<Rightarrow> nat \<Rightarrow> MediaTracker \<times> nat" where
  "MediaTracker_init e k =
     (\<lparr>bookshelf_scanner = BookshelfScanner_init,
       last_update_time = clock e k - timedelta_days 1\<rparr>, Suc k)"

text \<open>
  The constructor \<^verbatim>\<open>MediaItem(title=, creator=, type=, timestamp=)\<close> with pydantic's
  validation: the three text fields take strings, the timestamp a datetime or a string
  that pydantic parses as one.
\<close>

definition validate_datetime :: "env \<Rightarrow> pyval \<Rightarrow> datetime option" where
  "validate_datetime e v =
     (case v of VDatetime d \<Rightarrow> Some d | VStr s \<Rightarrow> pydantic_datetime e s | VNone \<Rightarrow> None)"

definition MediaItem_new :: "env \<Rightarrow> pyval \<Rightarrow> pyval \<Rightarrow> pyval \<Rightarrow> pyval \<Rightarrow> error + MediaItem" where
  "MediaItem_new e t c ty ts =
     (case (t, c, ty, validate_datetime e ts) of
        (VStr t', VStr c', VStr ty', Some d) \<Rightarrow>
          Inr \<lparr>title = t', creator = c', item_type = ty', timestamp = d\<rparr>
      | _ \<Rightarrow> Inl ValidationError)"

text \<open>One element of the comprehension of \<^verbatim>\<open>get_new_audiobooks\<close>: condition first.\<close>

definition audiobook_of :: "env \<Rightarrow> datetime \<Rightarrow> pydict \<Rightarrow> error + MediaItem option" where
  "audiobook_of e lut book =
     bind_err (getitem book ''date_added'') (\<lambda>d.
     bind_err (py_gt d lut) (\<lambda>c.
       if c then
         bind_err (getitem book ''title'') (\<lambda>t.
         bind_err (getitem book ''author'') (\<lambda>a.
         bind_err (getitem book ''date_added'') (\<lambda>ts.
         bind_err (MediaItem_new e t a (VStr ''audiobook'') ts) (\<lambda>item.
           Inr (Some item)))))
       else Inr None))"

definition new_audiobooks_of :: "env \<Rightarrow> datetime \<Rightarrow> pydict list \<Rightarrow> error + MediaItem list" where
  "new_audiobooks_of e lut library = comprehension (audiobook_of e lut) library"

definition get_new_audiobooks :: "env \<Rightarrow> world \<Rightarrow> (error + MediaItem list) \<times> world" where
  "get_new_audiobooks e w =
     (case audible e (clock e) (ticks w) of
        (Inl err, k) \<Rightarrow> (Inl err, w\<lparr>ticks := k\<rparr>)
      | (Inr library, k) \<Rightarrow>
          (new_audiobooks_of e (last_update_time (tracker w)) library, w\<lparr>ticks := k\<rparr>))"

definition track_of :: "env \<Rightarrow> datetime \<Rightarrow> pydict \<Rightarrow> error + MediaItem option" where
  "track_of e lut track =
     bind_err (getitem track ''played_at'') (\<lambda>d.
     bind_err (py_gt d lut) (\<lambda>c.
       if c then
         bind_err (getitem track ''track'') (\<lambda>t.
         bind_err (getitem track ''artist'') (\<lambda>a.
         bind_err (getitem track ''played_at'') (\<lambda>ts.
         bind_err (MediaItem_new e t a (VStr ''music'') ts) (\<lambda>item.
           Inr (Some item)))))
       else Inr None))"

definition new_music_of :: "env \<Rightarrow> datetime \<Rightarrow> pydict list \<Rightarrow> error + MediaItem list" where
  "new_music_of e lut recent_tracks = comprehension (track_of e lut) recent_tracks"

definition get_new_music :: "env \<Rightarrow> world \<Rightarrow> (error + MediaItem list) \<times> world" where
  "get_new_music e w =
     (case spotify e (clock e) (ticks w) of
        (Inl err, k) \<Rightarrow> (Inl err, w\<lparr>ticks := k\<rparr>)
      | (Inr recent_tracks, k) \<Rightarrow>
          (new_music_of e (last_update_time (tracker w)) recent_tracks, w\<lparr>ticks := k\<rparr>))"

text \<open>
  The comprehension of \<^verbatim>\<open>get_new_physical_books\<close>: one reading of the clock per title.
\<close>

fun physical_book_items :: "env \<Rightarrow> string list \<Rightarrow> world \<Rightarrow> MediaItem list \<times> world" where
  "physical_book_items e [] w = ([], w)"
| "physical_book_items e (t # new_books) w =
     (let (now, w1) = datetime_now e w;
          item = \<lparr>title = t, creator = ''Unknown'', item_type = ''physical_book'',
                  timestamp = now\<rparr>;
          (items, w2) = physical_book_items e new_books w1
      in (item # items, w2))"

definition get_new_physical_books :: "env \<Rightarrow> world \<Rightarrow> (error + MediaItem list) \<times> world" where
  "get_new_physical_books e w =
     (case get_new_books e (bookshelf_scanner (tracker w)) of
        (Inl err, s) \<Rightarrow> (Inl err, w\<lparr>tracker := (tracker w)\<lparr>bookshelf_scanner := s\<rparr>\<rparr>)
      | (Inr new_books, s) \<Rightarrow>
          (let (items, w1) =
                 physical_book_items e new_books
                   (w\<lparr>tracker := (tracker w)\<lparr>bookshelf_scanner := s\<rparr>\<rparr>)
           in (Inr items, w1)))"

text \<open>
  \<^verbatim>\<open>collect_new_data\<close>: the dictionary display evaluates its three values in order, and
  the first exception leaves it.
\<close>

definition collect_new_data ::
  "env \<Rightarrow> world \<Rightarrow> (error + (string \<times> MediaItem list) list) \<times> world" where
  "collect_new_data e w =
     (case get_new_audiobooks e w of
        (Inl err, w1) \<Rightarrow> (Inl err, w1)
      | (Inr audiobooks, w1) \<Rightarrow>
         (case get_new_music e w1 of
            (Inl err, w2) \<Rightarrow> (Inl err, w2)
          | (Inr music, w2) \<Rightarrow>
             (case get_new_physical_books e w2 of
                (Inl err, w3) \<Rightarrow> (Inl err, w3)
              | (Inr physical_books, w3) \<Rightarrow>
                  (Inr [(''audiobooks'', audiobooks), (''music'', music),
                        (''physical_books'', physical_books)], w3))))"

definition newline :: string where
  "newline = [char_of (10 :: nat)]"

definition llama_prompt :: string where
  "llama_prompt =
     newline @
     ''        Given the list of new items in the user'' @ [char_of (39 :: nat)] @
     ''s media collection (audiobooks, music, and physical books),'' @ newline @
     ''        please identify and return only the new items that have been added since the last update.'' @ newline @
     ''        Do not make any recommendations or suggestions. Simply return the list of new items with their details.'' @ newline @
     ''        ''"

definition process_with_llama ::
  "env \<Rightarrow> (string \<times> MediaItem list) list \<Rightarrow> world \<Rightarrow> (error + pydict list) \<times> world" where
  "process_with_llama e data w = process_data e data llama_prompt w"

text \<open>\<^verbatim>\<open>datetime.fromisoformat(v)\<close>: a \<^verbatim>\<open>TypeError\<close> unless \<open>v\<close> is a string.\<close>

definition datetime_fromisoformat :: "env \<Rightarrow> pyval \<Rightarrow> error + datetime" where
  "datetime_fromisoformat e v =
     (case v of
        VStr s \<Rightarrow> (case fromisoformat e s of None \<Rightarrow> Inl ValueError | Some d \<Rightarrow> Inr d)
      | _ \<Rightarrow> Inl TypeError)"

text \<open>One element of the comprehension over \<^verbatim>\<open>processed_data\<close>.\<close>

definition llama_item :: "env \<Rightarrow> pydict \<Rightarrow> error + MediaItem option" where
  "llama_item e item =
     bind_err (getitem item ''title'') (\<lambda>t.
     bind_err (getitem item ''creator'') (\<lambda>c.
     bind_err (getitem item ''type'') (\<lambda>ty.
     bind_err (getitem item ''timestamp'') (\<lambda>ts.
     bind_err (datetime_fromisoformat e ts) (\<lambda>d.
     bind_err (MediaItem_new e t c ty (VDatetime d)) (\<lambda>mi.
       Inr (Some mi)))))))"

definition generate_daily_update :: "env \<Rightarrow> world \<Rightarrow> (error + DailyUpdate) \<times> world" where
  "generate_daily_update e w =
     (case collect_new_data e w of
        (Inl err, w1) \<Rightarrow> (Inl err, w1)
      | (Inr new_data, w1) \<Rightarrow>
         (case process_with_llama e new_data w1 of
            (Inl err, w2) \<Rightarrow> (Inl err, w2)
          | (Inr processed_data, w2) \<Rightarrow>
             (case comprehension (llama_item e) processed_data of
                Inl err \<Rightarrow> (Inl err, w2)
              | Inr items \<Rightarrow>
                 (let (d, w3) = datetime_now e w2;
                      update = \<lparr>date = d, new_items = items\<rparr>;
                      (now, w4) = datetime_now e w3
                  in (Inr update,
                      w4\<lparr>tracker := (tracker w4)\<lparr>last_update_time := now\<rparr>\<rparr>)))))"

definition send_update_to_api :: "env \<Rightarrow> DailyUpdate \<Rightarrow> world \<Rightarrow> (error + unit) \<times> world" where
  "send_update_to_api e update w =
     (let pl = UpdatePayload update;
          w1 = emit (Post api_endpoint pl) w
      in case requests_post e api_endpoint pl of
           Inl err \<Rightarrow> (Inl err, w1)
         | Inr resp \<Rightarrow>
            (if status_code resp \<noteq> 200
             then (Inr (), emit (PrintFailedSend (resp_text resp)) w1)
             else (Inr (), w1)))"

text \<open>
  One pass through the body of the \<^verbatim>\<open>while True\<close> loop of \<^verbatim>\<open>run_daily\<close>: the
  \<^verbatim>\<open>try\<close> block, the handler of \<^verbatim>\<open>Exception\<close>, then \<^verbatim>\<open>time.sleep(86400)\<close>.
\<close>

definition run_daily_iteration :: "env \<Rightarrow> world \<Rightarrow> world" where
  "run_daily_iteration e w =
     (let w' =
        (case generate_daily_update e w of
           (Inl err, w1) \<Rightarrow> emit (PrintError err) w1
         | (Inr update, w1) \<Rightarrow>
            (case send_update_to_api e update w1 of
               (Inl err, w2) \<Rightarrow> emit (PrintError err) w2
             | (Inr u, w2) \<Rightarrow> emit (PrintSuccess (map title (new_items update))) w2))
      in emit (Sleep 86400) w')"

text \<open>
  The loop never returns; \<open>run_daily n envs w\<close> is the state after its first \<open>n\<close> passes,
  pass \<open>i\<close> (counted from 0) running in the environment \<open>envs i\<close>.
\<close>

fun run_daily :: "nat \<Rightarrow> (nat \<Rightarrow> env) \<Rightarrow> world \<Rightarrow> world" where
  "run_daily 0 envs w = w"
| "run_daily (Suc n) envs w = run_daily_iteration (envs n) (run_daily n envs w)"

text \<open>\<^verbatim>\<open>tracker = MediaTracker()\<close> at process start.\<close>

definition main_init :: "env \<Rightarrow> world" where
  "main_init e =
     (let (t, k) = MediaTracker_init e 0 in \<lparr>tracker = t, ticks = k, trace = []\<rparr>)"

section \<open>Auxiliary definitions and concrete environments\<close>

text \<open>
  The definitions of this section are not part of the program. The first group names
  what the statements below talk about: the URL that \<^verbatim>\<open>process_data\<close> posts to, the item
  built for a title of the shelf, the typed content of a well-formed raw record and the
  item it becomes, and two predicates on events. The second group fixes concrete
  environments: a clock that advances one microsecond per reading, a parser that knows
  one ISO string, the environment \<open>stub_env\<close> with the two provider clients of the
  source as they are (the camera frame and the behaviour of \<^verbatim>\<open>requests.post\<close> left open),
  frames, responses, and the values the source computes on them.
\<close>

definition llama_url :: string where
  "llama_url = server_url @ ''/process''"

definition physical_book :: "env \<Rightarrow> nat \<Rightarrow> string \<Rightarrow> MediaItem" where
  "physical_book e k t =
     \<lparr>title = t, creator = ''Unknown'', item_type = ''physical_book'', timestamp = clock e k\<rparr>"

definition example_clock :: "nat \<Rightarrow> datetime" where
  "example_clock k = 1730000000000000 + int k"

definition example_parser :: "string \<Rightarrow> datetime option" where
  "example_parser = map_of [(''2024-11-01T08:00:00'', 1730448000000000)]"

definition stub_env :: "frame option \<Rightarrow> (string \<Rightarrow> payload \<Rightarrow> error + response) \<Rightarrow> env" where
  "stub_env cam post =
     \<lparr>clock = example_clock,
       audible = AudibleClient_get_user_library,
       spotify = SpotifyClient_get_recently_played,
       camera_read = cam,
       requests_post = post,
       fromisoformat = example_parser,
       pydantic_datetime = example_parser\<rparr>"

definition frame_two_books :: frame where
  "frame_two_books = [(12, 8, 64, 310), (90, 10, 58, 295)]"

definition frame_no_books :: frame where
  "frame_no_books = [(12, 8, 40, 120)]"

definition post_refused :: "string \<Rightarrow> payload \<Rightarrow> error + response" where
  "post_refused url pl = Inl (ExternalError ''connection refused'')"

definition is_book :: "pydict \<Rightarrow> string \<times> string \<times> datetime \<Rightarrow> bool" where
  "is_book book r =
     (case r of (t, a, d) \<Rightarrow>
        book ''title'' = Some (VStr t) \<and> book ''author'' = Some (VStr a) \<and>
        book ''date_added'' = Some (VDatetime d))"

definition audiobook_item :: "string \<times> string \<times> datetime \<Rightarrow> MediaItem" where
  "audiobook_item r =
     (case r of (t, a, d) \<Rightarrow>
        \<lparr>title = t, creator = a, item_type = ''audiobook'', timestamp = d\<rparr>)"

definition is_track :: "pydict \<Rightarrow> string \<times> string \<times> datetime \<Rightarrow> bool" where
  "is_track track r =
     (case r of (t, a, d) \<Rightarrow>
        track ''track'' = Some (VStr t) \<and> track ''artist'' = Some (VStr a) \<and>
        track ''played_at'' = Some (VDatetime d))"

definition music_item :: "string \<times> string \<times> datetime \<Rightarrow> MediaItem" where
  "music_item r =
     (case r of (t, a, d) \<Rightarrow>
        \<lparr>title = t, creator = a, item_type = ''music'', timestamp = d\<rparr>)"

definition observed_after :: "datetime \<Rightarrow> string \<times> string \<times> datetime \<Rightarrow> bool" where
  "observed_after lut r = (case r of (t, a, d) \<Rightarrow> lut < d)"

definition fixed_client :: "pydict list \<Rightarrow> pydict list client" where
  "fixed_client library clk k = (Inr library, k)"

fun is_sleep :: "event \<Rightarrow> bool" where
  "is_sleep (Sleep d) = True"
| "is_sleep ev = False"

fun is_report :: "event \<Rightarrow> bool" where
  "is_report (Post url pl) = (url = api_endpoint)"
| "is_report ev = False"

definition stub_audiobooks :: "MediaItem list" where
  "stub_audiobooks =
     [\<lparr>title = ''Audiobook 0'', creator = ''Author 0'', item_type = ''audiobook'',
        timestamp = 1730000000000001\<rparr>,
      \<lparr>title = ''Audiobook 1'', creator = ''Author 1'', item_type = ''audiobook'',
        timestamp = 1729913600000002\<rparr>]"

definition stub_music :: "MediaItem list" where
  "stub_music =
     [\<lparr>title = ''Song 0'', creator = ''Artist 0'', item_type = ''music'',
        timestamp = 1730000000000011\<rparr>,
      \<lparr>title = ''Song 1'', creator = ''Artist 1'', item_type = ''music'',
        timestamp = 1729996400000012\<rparr>,
      \<lparr>title = ''Song 2'', creator = ''Artist 2'', item_type = ''music'',
        timestamp = 1729992800000013\<rparr>,
      \<lparr>title = ''Song 3'', creator = ''Artist 3'', item_type = ''music'',
        timestamp = 1729989200000014\<rparr>,
      \<lparr>title = ''Song 4'', creator = ''Artist 4'', item_type = ''music'',
        timestamp = 1729985600000015\<rparr>]"

definition stub_books :: "MediaItem list" where
  "stub_books =
     [\<lparr>title = ''Book 1'', creator = ''Unknown'', item_type = ''physical_book'',
        timestamp = 1730000000000016\<rparr>,
      \<lparr>title = ''Book 2'', creator = ''Unknown'', item_type = ''physical_book'',
        timestamp = 1730000000000017\<rparr>]"

definition stub_delta :: "(string \<times> MediaItem list) list" where
  "stub_delta =
     [(''audiobooks'', stub_audiobooks), (''music'', stub_music), (''physical_books'', stub_books)]"

definition good_record :: pydict where
  "good_record =
     [''title'' \<mapsto> VStr ''Dune'', ''creator'' \<mapsto> VStr ''Frank Herbert'',
      ''type'' \<mapsto> VStr ''audiobook'', ''timestamp'' \<mapsto> VStr ''2024-11-01T08:00:00'']"

definition bad_record :: pydict where
  "bad_record =
     [''title'' \<mapsto> VStr ''Foundation'', ''creator'' \<mapsto> VStr ''Isaac Asimov'',
      ''type'' \<mapsto> VStr ''audiobook'', ''timestamp'' \<mapsto> VStr ''yesterday'']"

definition dune_item :: MediaItem where
  "dune_item =
     \<lparr>title = ''Dune'', creator = ''Frank Herbert'', item_type = ''audiobook'',
      timestamp = 1730448000000000\<rparr>"

definition post_llama_ok ::
  "pydict list \<Rightarrow> error + response \<Rightarrow> string \<Rightarrow> payload \<Rightarrow> error + response" where
  "post_llama_ok records api url pl =
     (if url = llama_url
      then Inr \<lparr>status_code = 200, resp_text = ''OK'',
                resp_json = Inr [''new_items'' \<mapsto> records]\<rparr>
      else api)"

definition post_llama_500 :: "string \<Rightarrow> payload \<Rightarrow> error + response" where
  "post_llama_500 url pl =
     Inr \<lparr>status_code = 500, resp_text = ''Internal Server Error'',
          resp_json = Inl (ExternalError ''not JSON'')\<rparr>"

definition api_503 :: "error + response" where
  "api_503 =
     Inr \<lparr>status_code = 503, resp_text = ''Service Unavailable'',
          resp_json = Inl (ExternalError ''not JSON'')\<rparr>"

definition api_200 :: "error + response" where
  "api_200 =
     Inr \<lparr>status_code = 200, resp_text = ''OK'', resp_json = Inl (ExternalError ''not JSON'')\<rparr>"

definition raising_client :: "error \<Rightarrow> pydict list client" where
  "raising_client err clk k = (Inl err, k)"

definition scenario_library :: "pydict list" where
  "scenario_library =
     [[''title'' \<mapsto> VStr ''Dune'', ''author'' \<mapsto> VStr ''Frank Herbert'',
       ''date_added'' \<mapsto> VDatetime 1730448000000000],
      [''title'' \<mapsto> VStr ''Foundation'', ''author'' \<mapsto> VStr ''Isaac Asimov'',
       ''date_added'' \<mapsto> VDatetime 1730275200000000]]"

definition scenario_books :: "(string \<times> string \<times> datetime) list" where
  "scenario_books =
     [(''Dune'', ''Frank Herbert'', 1730448000000000),
      (''Foundation'', ''Isaac Asimov'', 1730275200000000)]"

definition scenario_recent :: "pydict list" where
  "scenario_recent =
     [[''track'' \<mapsto> VStr ''Song A'', ''artist'' \<mapsto> VStr ''Artist A'',
       ''played_at'' \<mapsto> VDatetime 1730332800000000],
      [''track'' \<mapsto> VStr ''Song B'', ''artist'' \<mapsto> VStr ''Artist B'',
       ''played_at'' \<mapsto> VDatetime 1730332800000001]]"

definition scenario_tracks :: "(string \<times> string \<times> datetime) list" where
  "scenario_tracks =
     [(''Song A'', ''Artist A'', 1730332800000000),
      (''Song B'', ''Artist B'', 1730332800000001)]"

definition song_b_item :: MediaItem where
  "song_b_item =
     \<lparr>title = ''Song B'', creator = ''Artist B'', item_type = ''music'',
      timestamp = 1730332800000001\<rparr>"

definition scenario_env :: env where
  "scenario_env =
     (stub_env None post_refused)
       \<lparr>audible := fixed_client scenario_library, spotify := fixed_client scenario_recent\<rparr>"

definition scenario_world :: world where
  "scenario_world =
     \<lparr>tracker = \<lparr>bookshelf_scanner = BookshelfScanner_init,
                 last_update_time = 1730332800000000\<rparr>,
      ticks = 1, trace = []\<rparr>"

definition malformed_book :: pydict where
  "malformed_book =
     [''title'' \<mapsto> VStr ''Untitled'', ''date_added'' \<mapsto> VDatetime 1730448000000000]"

definition malformed_track :: pydict where
  "malformed_track =
     [''track'' \<mapsto> VStr ''Song C'', ''artist'' \<mapsto> VStr ''Artist C'', ''played_at'' \<mapsto> VNone]"

definition audible_down :: env where
  "audible_down =
     (stub_env (Some frame_two_books) post_refused)
       \<lparr>audible := raising_client (ExternalError ''audible unavailable'')\<rparr>"

definition spotify_down :: env where
  "spotify_down =
     (stub_env (Some frame_two_books) post_refused)
       \<lparr>spotify := raising_client (ExternalError ''spotify unavailable'')\<rparr>"

text \<open>
  \<^verbatim>\<open>requests.post(url, json=...)\<close> serialises its \<^verbatim>\<open>json\<close> argument with \<^verbatim>\<open>json.dumps\<close>
  before it sends anything, and \<^verbatim>\<open>json.dumps\<close> raises \<^verbatim>\<open>TypeError\<close> on an object it cannot
  encode. The payload of \<^verbatim>\<open>process_data\<close> holds the \<^verbatim>\<open>MediaItem\<close> objects of the three
  lists, which it cannot encode: that payload serialises only when the three lists are
  empty. The payload of \<^verbatim>\<open>send_update_to_api\<close> is \<^verbatim>\<open>update.dict()\<close>, which holds a
  \<^verbatim>\<open>datetime\<close> under \<^verbatim>\<open>date\<close>: it never serialises. \<open>library_post server\<close> is
  \<^verbatim>\<open>requests.post\<close> in front of a remote end \<open>server\<close>: the remote end is asked only when
  the payload serialises.
\<close>

definition json_serialisable :: "payload \<Rightarrow> bool" where
  "json_serialisable pl =
     (case pl of
        LlamaPayload data prompt \<Rightarrow> list_all (\<lambda>(k, items). items = []) data
      | UpdatePayload update \<Rightarrow> False)"

definition library_post ::
  "(string \<Rightarrow> payload \<Rightarrow> error + response) \<Rightarrow> string \<Rightarrow> payload \<Rightarrow> error + response" where
  "library_post server url pl = (if json_serialisable pl then server url pl else Inl TypeError)"

text \<open>
  A day on which nothing is new: both provider clients return an empty library, the
  frame shows no book, and \<^verbatim>\<open>requests.post\<close> is the library in front of a remote end. The
  three deltas are empty, so the payload of \<^verbatim>\<open>process_data\<close> serialises and the
  language-model server is really asked.
\<close>

definition quiet_env :: "(string \<Rightarrow> payload \<Rightarrow> error + response) \<Rightarrow> env" where
  "quiet_env server =
     (stub_env (Some frame_no_books) (library_post server))
       \<lparr>audible := fixed_client [], spotify := fixed_client []\<rparr>"

definition empty_delta :: "(string \<times> MediaItem list) list" where
  "empty_delta = [(''audiobooks'', []), (''music'', []), (''physical_books'', [])]"

definition update_quiet :: DailyUpdate where
  "update_quiet = \<lparr>date = 1730000000000001, new_items = [dune_item]\<rparr>"

section \<open>Basic facts\<close>

lemma tracker_emit: "tracker (emit ev w) = tracker w"
  by (simp add: emit_def)

lemma trace_emit: "trace (emit ev w) = trace w @ [ev]"
  by (simp add: emit_def)

lemma set_list_of_set_diff: "set (list_of_set_diff titles seen) = set titles - seen"
  by (auto simp: list_of_set_diff_def)

lemma distinct_list_of_set_diff: "distinct (list_of_set_diff titles seen)"
  by (simp add: list_of_set_diff_def)

lemma get_new_books_Inr:
  assumes "process_image (capture_image e) = Inr titles"
  shows "get_new_books e s =
           (Inr (list_of_set_diff titles (last_scan s)), s\<lparr>last_scan := set titles\<rparr>)"
  using assms by (simp add: get_new_books_def)

lemma get_new_books_Inl:
  assumes "process_image (capture_image e) = Inl err"
  shows "get_new_books e s = (Inl err, s)"
  using assms by (simp add: get_new_books_def)

lemma physical_book_items_eq:
  "physical_book_items e new_books w =
     (map (\<lambda>(k, t). physical_book e k t)
          (zip [ticks w..<ticks w + length new_books] new_books),
      w\<lparr>ticks := ticks w + length new_books\<rparr>)"
proof (induction new_books arbitrary: w)
  case Nil
  show ?case by simp
next
  case (Cons t new_books)
  have "[ticks w..<ticks w + length (t # new_books)] =
          ticks w # [Suc (ticks w)..<Suc (ticks w) + length new_books]"
    by (subst upt_rec) simp
  then show ?case
    by (simp add: Cons.IH datetime_now_def physical_book_def)
qed

lemma get_new_physical_books_Inr:
  assumes "process_image (capture_image e) = Inr titles"
  shows "get_new_physical_books e w =
     (Inr (map (\<lambda>(k, t). physical_book e k t)
            (zip [ticks w..<ticks w + length (list_of_set_diff titles (last_scan (bookshelf_scanner (tracker w))))]
                 (list_of_set_diff titles (last_scan (bookshelf_scanner (tracker w)))))),
      w\<lparr>tracker := (tracker w)\<lparr>bookshelf_scanner := (bookshelf_scanner (tracker w))\<lparr>last_scan := set titles\<rparr>\<rparr>,
        ticks := ticks w + length (list_of_set_diff titles (last_scan (bookshelf_scanner (tracker w))))\<rparr>)"
  by (simp add: get_new_physical_books_def get_new_books_Inr [OF assms] physical_book_items_eq)

lemma get_new_physical_books_Inl:
  assumes "process_image (capture_image e) = Inl err"
  shows "get_new_physical_books e w = (Inl err, w)"
  by (simp add: get_new_physical_books_def get_new_books_Inl [OF assms])

lemma get_new_audiobooks_frame:
  "tracker (snd (get_new_audiobooks e w)) = tracker w \<and>
   trace (snd (get_new_audiobooks e w)) = trace w"
  by (simp add: get_new_audiobooks_def split: prod.splits sum.splits)

lemma get_new_music_frame:
  "tracker (snd (get_new_music e w)) = tracker w \<and>
   trace (snd (get_new_music e w)) = trace w"
  by (simp add: get_new_music_def split: prod.splits sum.splits)

lemma get_new_physical_books_frame:
  "trace (snd (get_new_physical_books e w)) = trace w \<and>
   last_update_time (tracker (snd (get_new_physical_books e w))) = last_update_time (tracker w)"
proof (cases "process_image (capture_image e)")
  case (Inl err)
  then show ?thesis by (simp add: get_new_physical_books_Inl)
next
  case (Inr titles)
  then show ?thesis by (simp add: get_new_physical_books_Inr)
qed

lemma get_new_physical_books_failure:
  assumes "fst (get_new_physical_books e w) = Inl err"
  shows "snd (get_new_physical_books e w) = w"
proof (cases "process_image (capture_image e)")
  case (Inl err')
  then show ?thesis by (simp add: get_new_physical_books_Inl)
next
  case (Inr titles)
  with assms show ?thesis by (simp add: get_new_physical_books_Inr)
qed

lemma get_new_physical_books_success:
  assumes "fst (get_new_physical_books e w) = Inr items"
    and "process_image (capture_image e) = Inr titles"
  shows "last_scan (bookshelf_scanner (tracker (snd (get_new_physical_books e w)))) = set titles"
  using assms by (simp add: get_new_physical_books_Inr)

lemma collect_new_data_unfold:
  "collect_new_data e w =
     (case fst (get_new_audiobooks e w) of
        Inl err \<Rightarrow> (Inl err, snd (get_new_audiobooks e w))
      | Inr audiobooks \<Rightarrow>
         (case fst (get_new_music e (snd (get_new_audiobooks e w))) of
            Inl err \<Rightarrow> (Inl err, snd (get_new_music e (snd (get_new_audiobooks e w))))
          | Inr music \<Rightarrow>
             (case fst (get_new_physical_books e (snd (get_new_music e (snd (get_new_audiobooks e w))))) of
                Inl err \<Rightarrow> (Inl err, snd (get_new_physical_books e (snd (get_new_music e (snd (get_new_audiobooks e w))))))
              | Inr physical_books \<Rightarrow>
                  (Inr [(''audiobooks'', audiobooks), (''music'', music),
                        (''physical_books'', physical_books)],
                   snd (get_new_physical_books e (snd (get_new_music e (snd (get_new_audiobooks e w))))))))) "
  by (simp add: collect_new_data_def split: prod.splits sum.splits)

lemma collect_new_data_frame:
  "trace (snd (collect_new_data e w)) = trace w \<and>
   last_update_time (tracker (snd (collect_new_data e w))) = last_update_time (tracker w)"
  by (simp add: collect_new_data_unfold get_new_audiobooks_frame get_new_music_frame
      get_new_physical_books_frame split: sum.splits)

lemma collect_new_data_failure:
  assumes "fst (collect_new_data e w) = Inl err"
  shows "tracker (snd (collect_new_data e w)) = tracker w"
  using assms
  by (auto simp: collect_new_data_unfold get_new_audiobooks_frame get_new_music_frame
      get_new_physical_books_failure split: sum.splits)

lemma collect_new_data_success:
  assumes "fst (collect_new_data e w) = Inr data"
    and "process_image (capture_image e) = Inr titles"
  shows "last_scan (bookshelf_scanner (tracker (snd (collect_new_data e w)))) = set titles"
  using assms
  by (auto simp: collect_new_data_unfold get_new_physical_books_success split: sum.splits)

lemma process_with_llama_world:
  "snd (process_with_llama e data w) = emit (Post llama_url (LlamaPayload data llama_prompt)) w"
  by (simp add: process_with_llama_def process_data_def llama_url_def Let_def split: sum.splits)

lemma process_with_llama_not_200:
  assumes "requests_post e llama_url (LlamaPayload data llama_prompt) = Inr resp"
    and "status_code resp \<noteq> 200"
  shows "fst (process_with_llama e data w) = Inl (LlamaServerError (resp_text resp))"
  using assms by (simp add: process_with_llama_def process_data_def llama_url_def Let_def)

lemma generate_daily_update_unfold:
  "generate_daily_update e w =
     (case fst (collect_new_data e w) of
        Inl err \<Rightarrow> (Inl err, snd (collect_new_data e w))
      | Inr new_data \<Rightarrow>
         (let w2 = emit (Post llama_url (LlamaPayload new_data llama_prompt)) (snd (collect_new_data e w))
          in case fst (process_with_llama e new_data (snd (collect_new_data e w))) of
               Inl err \<Rightarrow> (Inl err, w2)
             | Inr processed_data \<Rightarrow>
                (case comprehension (llama_item e) processed_data of
                   Inl err \<Rightarrow> (Inl err, w2)
                 | Inr items \<Rightarrow>
                    (Inr \<lparr>date = clock e (ticks w2), new_items = items\<rparr>,
                     w2\<lparr>ticks := Suc (Suc (ticks w2)),
                        tracker := (tracker w2)\<lparr>last_update_time := clock e (Suc (ticks w2))\<rparr>\<rparr>))))"
proof -
  obtain r w1 where c: "collect_new_data e w = (r, w1)"
    by (cases "collect_new_data e w")
  show ?thesis
  proof (cases r)
    case (Inl err)
    with c show ?thesis by (simp add: generate_daily_update_def)
  next
    case (Inr data)
    obtain p where p: "process_with_llama e data w1 =
        (p, emit (Post llama_url (LlamaPayload data llama_prompt)) w1)"
      using process_with_llama_world [of e data w1] by (cases "process_with_llama e data w1") simp
    show ?thesis
    proof (cases p)
      case (Inl err)
      with c Inr p show ?thesis by (simp add: generate_daily_update_def)
    next
      case processed: (Inr processed_data)
      show ?thesis
      proof (cases "comprehension (llama_item e) processed_data")
        case (Inl err)
        with c Inr p processed show ?thesis by (simp add: generate_daily_update_def)
      next
        case items: (Inr items)
        with c Inr p processed show ?thesis
          by (simp add: generate_daily_update_def datetime_now_def Let_def)
      qed
    qed
  qed
qed

lemma process_image_two_books:
  "process_image (capture_image (stub_env (Some frame_two_books) post)) = Inr [''Book 1'', ''Book 2'']"
proof -
  have "str_nat (Suc 0) = ''1''" "str_nat (Suc (Suc 0)) = ''2''"
    by code_simp+
  then show ?thesis
    by (simp add: process_image_def capture_image_def stub_env_def frame_two_books_def)
qed

lemma process_image_no_books:
  "process_image (capture_image (stub_env (Some frame_no_books) post)) = Inr []"
  by (simp add: process_image_def capture_image_def stub_env_def frame_no_books_def)

lemma capture_image_no_frame:
  "capture_image (stub_env None post) = None"
  by (simp add: capture_image_def stub_env_def)

lemma comprehension_filter_map:
  assumes "list_all2 (\<lambda>x r. f x = Inr (if P r then Some (g r) else None)) xs rs"
  shows "comprehension f xs = Inr (map g (filter P rs))"
  using assms by (induction xs rs rule: list_all2_induct) simp_all

lemma comprehension_all:
  assumes "comprehension f xs = Inr ys"
    and "\<And>x y. f x = Inr (Some y) \<Longrightarrow> Q y"
  shows "\<forall>y \<in> set ys. Q y"
  using assms
proof (induction xs arbitrary: ys)
  case Nil
  then show ?case by simp
next
  case (Cons x xs)
  then show ?case
    by (auto split: sum.splits option.splits)
qed

lemma MediaItem_new_timestamp:
  assumes "MediaItem_new e t c ty (VDatetime d) = Inr item"
  shows "timestamp item = d"
  using assms
  by (auto simp: MediaItem_new_def validate_datetime_def split: pyval.splits)

lemma MediaItem_new_ok:
  "MediaItem_new e (VStr t) (VStr c) (VStr ty) (VDatetime d) =
     Inr \<lparr>title = t, creator = c, item_type = ty, timestamp = d\<rparr>"
  by (simp add: MediaItem_new_def validate_datetime_def)

lemma audiobook_of_book:
  assumes "is_book book r"
  shows "audiobook_of e lut book =
           Inr (if observed_after lut r then Some (audiobook_item r) else None)"
  using assms
  by (cases r)
    (simp add: is_book_def audiobook_of_def getitem_def py_gt_def bind_err_def
      MediaItem_new_ok observed_after_def audiobook_item_def)

lemma track_of_track:
  assumes "is_track track r"
  shows "track_of e lut track =
           Inr (if observed_after lut r then Some (music_item r) else None)"
  using assms
  by (cases r)
    (simp add: is_track_def track_of_def getitem_def py_gt_def bind_err_def
      MediaItem_new_ok observed_after_def music_item_def)

lemma audiobook_of_after:
  assumes "audiobook_of e lut book = Inr (Some item)"
  shows "lut < timestamp item"
  using assms
  by (auto simp: audiobook_of_def getitem_def py_gt_def bind_err_def
      dest: MediaItem_new_timestamp split: option.splits pyval.splits if_splits sum.splits)

lemma track_of_after:
  assumes "track_of e lut track = Inr (Some item)"
  shows "lut < timestamp item"
  using assms
  by (auto simp: track_of_def getitem_def py_gt_def bind_err_def
      dest: MediaItem_new_timestamp split: option.splits pyval.splits if_splits sum.splits)

lemma new_audiobooks_of_books:
  assumes "list_all2 is_book library books"
  shows "new_audiobooks_of e lut library =
           Inr (map audiobook_item (filter (observed_after lut) books))"
  unfolding new_audiobooks_of_def
  by (rule comprehension_filter_map) (rule list_all2_mono [OF assms], rule audiobook_of_book)

lemma new_music_of_tracks:
  assumes "list_all2 is_track recent_tracks tracks"
  shows "new_music_of e lut recent_tracks =
           Inr (map music_item (filter (observed_after lut) tracks))"
  unfolding new_music_of_def
  by (rule comprehension_filter_map) (rule list_all2_mono [OF assms], rule track_of_track)

lemma llama_url_not_api_endpoint: "llama_url \<noteq> api_endpoint"
  by (simp add: llama_url_def server_url_def api_endpoint_def)

lemma send_update_to_api_trace:
  "\<exists>evs. trace (snd (send_update_to_api e update w)) = trace w @ evs \<and>
         (\<forall>ev \<in> set evs. \<not> is_sleep ev)"
  by (simp add: send_update_to_api_def Let_def trace_emit split: sum.splits)

lemma generate_daily_update_trace:
  "\<exists>evs. trace (snd (generate_daily_update e w)) = trace w @ evs \<and>
         (\<forall>ev \<in> set evs. \<not> is_sleep ev \<and> \<not> is_report ev)"
  by (simp add: generate_daily_update_unfold Let_def trace_emit collect_new_data_frame
      llama_url_not_api_endpoint split: sum.splits)

lemma run_daily_iteration_failure:
  assumes "fst (generate_daily_update e w) = Inl err"
  shows "run_daily_iteration e w =
           emit (Sleep 86400) (emit (PrintError err) (snd (generate_daily_update e w)))"
  using assms by (cases "generate_daily_update e w") (simp add: run_daily_iteration_def)

lemma run_daily_iteration_send_failure:
  assumes "generate_daily_update e w = (Inr update, w1)"
    and "fst (send_update_to_api e update w1) = Inl err"
  shows "run_daily_iteration e w =
           emit (Sleep 86400) (emit (PrintError err) (snd (send_update_to_api e update w1)))"
  using assms by (cases "send_update_to_api e update w1") (simp add: run_daily_iteration_def)

lemma run_daily_iteration_sent:
  assumes "generate_daily_update e w = (Inr update, w1)"
    and "fst (send_update_to_api e update w1) = Inr u"
  shows "run_daily_iteration e w =
           emit (Sleep 86400) (emit (PrintSuccess (map title (new_items update)))
             (snd (send_update_to_api e update w1)))"
  using assms by (cases "send_update_to_api e update w1") (simp add: run_daily_iteration_def)

lemma run_daily_iteration_events:
  "\<exists>evs. trace (run_daily_iteration e w) = trace w @ evs @ [Sleep 86400] \<and>
         (\<forall>ev \<in> set evs. \<not> is_sleep ev) \<and>
         (\<forall>err. fst (generate_daily_update e w) = Inl err \<longrightarrow> evs \<noteq> [] \<and> last evs = PrintError err) \<and>
         (\<forall>err update w1. generate_daily_update e w = (Inr update, w1) \<and>
             fst (send_update_to_api e update w1) = Inl err \<longrightarrow> evs \<noteq> [] \<and> last evs = PrintError err)"
proof -
  obtain r w1 where g: "generate_daily_update e w = (r, w1)"
    by (cases "generate_daily_update e w")
  obtain evs1 where evs1: "trace w1 = trace w @ evs1" "\<forall>ev \<in> set evs1. \<not> is_sleep ev"
    using generate_daily_update_trace [of e w] g by auto
  show ?thesis
  proof (cases r)
    case (Inl err)
    with g have "trace (run_daily_iteration e w) = trace w @ (evs1 @ [PrintError err]) @ [Sleep 86400]"
      by (simp add: run_daily_iteration_failure trace_emit evs1)
    moreover have "\<forall>ev \<in> set (evs1 @ [PrintError err]). \<not> is_sleep ev"
      using evs1 by simp
    ultimately show ?thesis
      using g Inl by (intro exI [of _ "evs1 @ [PrintError err]"]) simp
  next
    case (Inr update)
    obtain s w2 where s: "send_update_to_api e update w1 = (s, w2)"
      by (cases "send_update_to_api e update w1")
    obtain evs2 where evs2: "trace w2 = trace w1 @ evs2" "\<forall>ev \<in> set evs2. \<not> is_sleep ev"
      using send_update_to_api_trace [of e update w1] s by auto
    show ?thesis
    proof (cases s)
      case (Inl err)
      with g Inr s have "trace (run_daily_iteration e w) =
          trace w @ (evs1 @ evs2 @ [PrintError err]) @ [Sleep 86400]"
        by (simp add: run_daily_iteration_send_failure trace_emit evs1 evs2)
      moreover have "\<forall>ev \<in> set (evs1 @ evs2 @ [PrintError err]). \<not> is_sleep ev"
        using evs1 evs2 by auto
      ultimately show ?thesis
        using g Inr s Inl by (intro exI [of _ "evs1 @ evs2 @ [PrintError err]"]) simp
    next
      case u: (Inr u)
      with g Inr s have "trace (run_daily_iteration e w) =
          trace w @ (evs1 @ evs2 @ [PrintSuccess (map title (new_items update))]) @ [Sleep 86400]"
        by (simp add: run_daily_iteration_sent trace_emit evs1 evs2)
      moreover have "\<forall>ev \<in> set (evs1 @ evs2 @ [PrintSuccess (map title (new_items update))]).
          \<not> is_sleep ev"
        using evs1 evs2 by auto
      ultimately show ?thesis
        using g Inr s u
        by (intro exI [of _ "evs1 @ evs2 @ [PrintSuccess (map title (new_items update))]"]) simp
    qed
  qed
qed

lemma run_daily_sleeps:
  "filter is_sleep (trace (run_daily n envs w)) =
     filter is_sleep (trace w) @ replicate n (Sleep 86400)"
proof (induction n)
  case 0
  show ?case by simp
next
  case (Suc n)
  obtain evs where evs:
    "trace (run_daily_iteration (envs n) (run_daily n envs w)) =
       trace (run_daily n envs w) @ evs @ [Sleep 86400]"
    "\<forall>ev \<in> set evs. \<not> is_sleep ev"
    using run_daily_iteration_events [of "envs n" "run_daily n envs w"] by blast
  from evs(2) have "filter is_sleep evs = []"
    by (simp add: filter_empty_conv)
  with evs(1) Suc show ?case
    by (simp add: replicate_append_same)
qed

lemma comprehension_fails:
  assumes "x \<in> set xs" and "f x = Inl err0"
  shows "\<exists>err. comprehension f xs = Inl err"
  using assms by (induction xs) (auto split: sum.splits)

lemma generate_daily_update_collect_failure:
  assumes "fst (collect_new_data e w) = Inl err"
  shows "generate_daily_update e w = (Inl err, snd (collect_new_data e w))"
  using assms by (simp add: generate_daily_update_unfold)

lemma generate_daily_update_later_failure:
  assumes "fst (collect_new_data e w) = Inr data"
    and "fst (generate_daily_update e w) = Inl err"
  shows "snd (generate_daily_update e w) =
           emit (Post llama_url (LlamaPayload data llama_prompt)) (snd (collect_new_data e w))"
  using assms by (simp add: generate_daily_update_unfold Let_def split: sum.splits)

lemma generate_daily_update_llama_failure:
  assumes "fst (collect_new_data e w) = Inr data"
    and "fst (process_with_llama e data (snd (collect_new_data e w))) = Inl err"
  shows "fst (generate_daily_update e w) = Inl err"
  using assms by (simp add: generate_daily_update_unfold Let_def)

lemma generate_daily_update_parse_failure:
  assumes "fst (collect_new_data e w) = Inr data"
    and "fst (process_with_llama e data (snd (collect_new_data e w))) = Inr processed_data"
    and "comprehension (llama_item e) processed_data = Inl err"
  shows "fst (generate_daily_update e w) = Inl err"
  using assms by (simp add: generate_daily_update_unfold Let_def)


lemma stub_get_new_audiobooks:
  "fst (get_new_audiobooks (stub_env cam post) (main_init (stub_env cam post))) = Inr stub_audiobooks"
  by code_simp

lemma stub_get_new_music:
  "fst (get_new_music (stub_env cam post)
         (snd (get_new_audiobooks (stub_env cam post) (main_init (stub_env cam post))))) = Inr stub_music"
  by code_simp

lemma stub_collect:
  "fst (collect_new_data (stub_env (Some frame_two_books) post)
          (main_init (stub_env (Some frame_two_books) post))) = Inr stub_delta"
  by code_simp

lemma scenario_library_books: "list_all2 is_book scenario_library scenario_books"
  by (simp add: scenario_library_def scenario_books_def is_book_def)

lemma scenario_recent_tracks: "list_all2 is_track scenario_recent scenario_tracks"
  by (simp add: scenario_recent_def scenario_tracks_def is_track_def)

lemma scenario_books_after:
  "map audiobook_item (filter (observed_after 1730332800000000) scenario_books) = [dune_item]"
  by (simp add: scenario_books_def observed_after_def audiobook_item_def dune_item_def)

lemma scenario_tracks_after:
  "map music_item (filter (observed_after 1730332800000000) scenario_tracks) = [song_b_item]"
  by (simp add: scenario_tracks_def observed_after_def music_item_def song_b_item_def)

lemma main_init_stub:
  "trace (main_init (stub_env cam post)) = []"
  "last_update_time (tracker (main_init (stub_env cam post))) = 1729913600000000"
  "ticks (main_init (stub_env cam post)) = 1"
  by (simp_all add: main_init_def MediaTracker_init_def stub_env_def example_clock_def
      timedelta_days_def)

lemma scenario_books_after_init:
  "map audiobook_item (filter (observed_after 1729913600000000) scenario_books) =
     map audiobook_item scenario_books"
  by (simp add: scenario_books_def observed_after_def)

lemma run_daily_iteration_collect_failure:
  assumes "fst (collect_new_data e w) = Inl err"
  shows "tracker (run_daily_iteration e w) = tracker w"
    and "trace (run_daily_iteration e w) = trace w @ [PrintError err, Sleep 86400]"
proof -
  have g: "generate_daily_update e w = (Inl err, snd (collect_new_data e w))"
    using assms by (rule generate_daily_update_collect_failure)
  then have r: "run_daily_iteration e w =
      emit (Sleep 86400) (emit (PrintError err) (snd (collect_new_data e w)))"
    by (simp add: run_daily_iteration_failure)
  show "tracker (run_daily_iteration e w) = tracker w"
    by (simp add: r tracker_emit collect_new_data_failure [OF assms])
  show "trace (run_daily_iteration e w) = trace w @ [PrintError err, Sleep 86400]"
    by (simp add: r trace_emit collect_new_data_frame)
qed

lemma stub_generate_no_frame:
  "fst (generate_daily_update (stub_env None post) (main_init (stub_env None post))) = Inl CvError"
  by code_simp

lemma stub_collect_no_frame:
  "fst (collect_new_data (stub_env None post) (main_init (stub_env None post))) = Inl CvError"
  by code_simp

lemma audible_down_collect:
  "fst (audible audible_down (clock audible_down) (ticks (main_init audible_down))) =
     Inl (ExternalError ''audible unavailable'')"
  by (simp add: audible_down_def raising_client_def)

lemma spotify_down_audiobooks:
  "fst (get_new_audiobooks spotify_down (main_init spotify_down)) = Inr stub_audiobooks"
  by code_simp

lemma spotify_down_spotify:
  "fst (spotify spotify_down (clock spotify_down)
         (ticks (snd (get_new_audiobooks spotify_down (main_init spotify_down))))) =
     Inl (ExternalError ''spotify unavailable'')"
  by (simp add: spotify_down_def raising_client_def)

lemma run_daily_iteration_parse_failure:
  assumes "fst (collect_new_data e w) = Inr data"
    and "fst (process_with_llama e data (snd (collect_new_data e w))) = Inr processed_data"
    and "comprehension (llama_item e) processed_data = Inl err"
  shows "trace (run_daily_iteration e w) =
           trace w @ [Post llama_url (LlamaPayload data llama_prompt), PrintError err, Sleep 86400]"
    and "last_update_time (tracker (run_daily_iteration e w)) = last_update_time (tracker w)"
proof -
  have f: "fst (generate_daily_update e w) = Inl err"
    using assms by (rule generate_daily_update_parse_failure)
  have s: "snd (generate_daily_update e w) =
      emit (Post llama_url (LlamaPayload data llama_prompt)) (snd (collect_new_data e w))"
    using assms(1) f by (rule generate_daily_update_later_failure)
  have r: "run_daily_iteration e w =
      emit (Sleep 86400) (emit (PrintError err)
        (emit (Post llama_url (LlamaPayload data llama_prompt)) (snd (collect_new_data e w))))"
    by (simp add: run_daily_iteration_failure [OF f] s)
  show "trace (run_daily_iteration e w) =
           trace w @ [Post llama_url (LlamaPayload data llama_prompt), PrintError err, Sleep 86400]"
    by (simp add: r trace_emit collect_new_data_frame)
  show "last_update_time (tracker (run_daily_iteration e w)) = last_update_time (tracker w)"
    by (simp add: r tracker_emit collect_new_data_frame)
qed

lemma audiobook_of_malformed_book:
  "audiobook_of scenario_env 1730332800000000 malformed_book = Inl (KeyError ''author'')"
  by code_simp

lemma track_of_malformed_track:
  "track_of scenario_env 1730332800000000 malformed_track = Inl TypeError"
  by code_simp



lemma main_init_quiet:
  "trace (main_init (quiet_env server)) = []"
  "last_update_time (tracker (main_init (quiet_env server))) = 1729913600000000"
  "ticks (main_init (quiet_env server)) = 1"
  by (simp_all add: main_init_def MediaTracker_init_def quiet_env_def stub_env_def example_clock_def
      timedelta_days_def)


lemma quiet_collect:
  "fst (collect_new_data (quiet_env server) (main_init (quiet_env server))) = Inr empty_delta"
  by code_simp

lemma quiet_generate:
  "fst (generate_daily_update (quiet_env (post_llama_ok [good_record] api))
          (main_init (quiet_env (post_llama_ok [good_record] api)))) = Inr update_quiet"
  by code_simp



lemma quiet_post_500:
  "requests_post (quiet_env post_llama_500) llama_url (LlamaPayload empty_delta llama_prompt) =
     Inr \<lparr>status_code = 500, resp_text = ''Internal Server Error'',
          resp_json = Inl (ExternalError ''not JSON'')\<rparr>"
  by (simp add: quiet_env_def stub_env_def library_post_def json_serialisable_def empty_delta_def
      post_llama_500_def)

lemma stub_generate_unserialisable:
  "fst (generate_daily_update (stub_env (Some frame_two_books) (library_post server))
          (main_init (stub_env (Some frame_two_books) (library_post server)))) = Inl TypeError"
  by code_simp

lemma quiet_process_with_llama:
  "fst (process_with_llama (quiet_env (post_llama_ok records api)) empty_delta w) = Inr records"
  by (simp add: process_with_llama_def process_data_def Let_def quiet_env_def stub_env_def
      post_llama_ok_def llama_url_def bind_err_def library_post_def json_serialisable_def
      empty_delta_def)

lemma quiet_llama_item_good: "llama_item (quiet_env server) good_record = Inr (Some dune_item)"
  by code_simp

lemma quiet_llama_item_bad: "llama_item (quiet_env server) bad_record = Inl ValueError"
  by code_simp

lemma quiet_comprehension_bad:
  "comprehension (llama_item (quiet_env server)) [good_record, bad_record] = Inl ValueError"
  by (simp add: quiet_llama_item_good quiet_llama_item_bad)

section \<open>The seen-set of the bookshelf scanner\<close>

text \<open>
  Claim C1, as stated, fails: the code has no special case for a scan without titles.
  After a scan that saw two books, a frame in which no contour is large enough gives the
  empty snapshot, and the seen-set becomes empty (so it differs from the seen-set before
  the scan).
\<close>

theorem empty_scan_clears_seen_set_counterexample:
  "process_image (capture_image (stub_env (Some frame_no_books) post_refused)) = Inr [] \<and>
   last_scan (snd (get_new_books (stub_env (Some frame_two_books) post_refused)
                     BookshelfScanner_init)) = {''Book 1'', ''Book 2''} \<and>
   last_scan (snd (get_new_books (stub_env (Some frame_no_books) post_refused)
                (snd (get_new_books (stub_env (Some frame_two_books) post_refused)
                        BookshelfScanner_init)))) = {} \<and>
   last_scan (snd (get_new_books (stub_env (Some frame_no_books) post_refused)
                (snd (get_new_books (stub_env (Some frame_two_books) post_refused)
                        BookshelfScanner_init))))
     \<noteq> last_scan (snd (get_new_books (stub_env (Some frame_two_books) post_refused)
                        BookshelfScanner_init))"
  by (simp add: get_new_books_Inr process_image_two_books process_image_no_books)

text \<open>
  Claim C1, amended. When the camera delivers no frame, \<^verbatim>\<open>process_image\<close> raises, the
  exception leaves \<^verbatim>\<open>get_new_books\<close> before the assignment to \<^verbatim>\<open>last_scan\<close>, and the
  seen-set is unchanged. When the frame yields no title, no book is new and the seen-set
  is replaced by the empty set.
\<close>

theorem get_new_books_failed_or_empty_capture:
  "(capture_image e = None \<longrightarrow> get_new_books e s = (Inl CvError, s)) \<and>
   (process_image (capture_image e) = Inr [] \<longrightarrow>
      get_new_books e s = (Inr [], s\<lparr>last_scan := {}\<rparr>))"
  by (auto simp: get_new_books_def process_image_def list_of_set_diff_def)

theorem get_new_books_failed_or_empty_capture_witness:
  "get_new_books (stub_env None post_refused) \<lparr>last_scan = {''Book 1'', ''Book 2''}\<rparr> =
     (Inl CvError, \<lparr>last_scan = {''Book 1'', ''Book 2''}\<rparr>) \<and>
   get_new_books (stub_env (Some frame_no_books) post_refused) \<lparr>last_scan = {''Book 1'', ''Book 2''}\<rparr> =
     (Inr [], \<lparr>last_scan = {}\<rparr>)"
  using get_new_books_failed_or_empty_capture
      [of "stub_env None post_refused" "\<lparr>last_scan = {''Book 1'', ''Book 2''}\<rparr>"]
    get_new_books_failed_or_empty_capture
      [of "stub_env (Some frame_no_books) post_refused" "\<lparr>last_scan = {''Book 1'', ''Book 2''}\<rparr>"]
  by (simp add: capture_image_no_frame process_image_no_books)

text \<open>
  Claim C5. Whenever \<^verbatim>\<open>process_image\<close> returns a list of titles (empty or not),
  \<^verbatim>\<open>get_new_books\<close> returns the titles of the snapshot that are not in the prior
  seen-set, and the next seen-set is exactly the set of titles of the snapshot: a
  replacement, not a union. Consequently a title that is absent from one scan and present
  in the next one is returned as new by that next scan, whatever the seen-set was before.
\<close>

theorem seen_set_replaced_by_snapshot:
  "(process_image (capture_image e) = Inr titles \<longrightarrow>
      (\<exists>new. get_new_books e s = (Inr new, s\<lparr>last_scan := set titles\<rparr>) \<and>
             set new = set titles - last_scan s)) \<and>
   (process_image (capture_image e1) = Inr titles1 \<and>
    process_image (capture_image e2) = Inr titles2 \<and>
    t \<notin> set titles1 \<and> t \<in> set titles2 \<longrightarrow>
      (\<exists>new2. fst (get_new_books e2 (snd (get_new_books e1 s))) = Inr new2 \<and> t \<in> set new2))"
proof (intro conjI impI)
  assume "process_image (capture_image e) = Inr titles"
  then show "\<exists>new. get_new_books e s = (Inr new, s\<lparr>last_scan := set titles\<rparr>) \<and>
             set new = set titles - last_scan s"
    by (simp add: get_new_books_Inr set_list_of_set_diff)
next
  assume a: "process_image (capture_image e1) = Inr titles1 \<and>
    process_image (capture_image e2) = Inr titles2 \<and>
    t \<notin> set titles1 \<and> t \<in> set titles2"
  then have "fst (get_new_books e2 (snd (get_new_books e1 s))) =
               Inr (list_of_set_diff titles2 (set titles1))"
    by (simp add: get_new_books_Inr)
  moreover from a have "t \<in> set (list_of_set_diff titles2 (set titles1))"
    by (simp add: set_list_of_set_diff)
  ultimately show "\<exists>new2. fst (get_new_books e2 (snd (get_new_books e1 s))) = Inr new2 \<and> t \<in> set new2"
    by blast
qed

theorem seen_set_replaced_by_snapshot_witness:
  "(\<exists>new. get_new_books (stub_env (Some frame_two_books) post_refused) BookshelfScanner_init =
            (Inr new, BookshelfScanner_init\<lparr>last_scan := {''Book 1'', ''Book 2''}\<rparr>) \<and>
          set new = {''Book 1'', ''Book 2''}) \<and>
   (\<exists>new2. fst (get_new_books (stub_env (Some frame_two_books) post_refused)
                  (snd (get_new_books (stub_env (Some frame_no_books) post_refused)
                          (BookshelfScanner_init\<lparr>last_scan := {''Book 1'', ''Book 2''}\<rparr>)))) = Inr new2 \<and>
           ''Book 1'' \<in> set new2)"
  using seen_set_replaced_by_snapshot
    [where e = "stub_env (Some frame_two_books) post_refused"
       and titles = "[''Book 1'', ''Book 2'']"
       and s = BookshelfScanner_init
       and ?e1.0 = "stub_env (Some frame_no_books) post_refused"
       and ?titles1.0 = "[]"
       and ?e2.0 = "stub_env (Some frame_two_books) post_refused"
       and ?titles2.0 = "[''Book 1'', ''Book 2'']"
       and t = "''Book 1''"]
    seen_set_replaced_by_snapshot
    [where ?e1.0 = "stub_env (Some frame_no_books) post_refused"
       and ?titles1.0 = "[]"
       and ?e2.0 = "stub_env (Some frame_two_books) post_refused"
       and ?titles2.0 = "[''Book 1'', ''Book 2'']"
       and t = "''Book 1''"
       and s = "BookshelfScanner_init\<lparr>last_scan := {''Book 1'', ''Book 2''}\<rparr>"]
  by (simp add: process_image_two_books process_image_no_books BookshelfScanner_init_def)

section \<open>Failures during collection\<close>

text \<open>
  Claim C2, as stated, fails: \<^verbatim>\<open>collect_new_data\<close> has no handler, so an exception of one
  source leaves it. In the environment of the source, with a camera that delivers no
  frame, the audiobook and the music client return their libraries and two audiobooks
  and five tracks are new, but the exception of the vision source ends the cycle: the
  pass through the loop prints the error and sleeps, and nothing is posted to the
  language-model server.
\<close>

theorem adapter_failure_aborts_cycle_counterexample:
  "capture_image (stub_env None (library_post (post_llama_ok [good_record] api_200))) = None \<and>
   fst (get_new_audiobooks (stub_env None (library_post (post_llama_ok [good_record] api_200)))
          (main_init (stub_env None (library_post (post_llama_ok [good_record] api_200))))) =
     Inr stub_audiobooks \<and>
   fst (get_new_music (stub_env None (library_post (post_llama_ok [good_record] api_200)))
          (snd (get_new_audiobooks (stub_env None (library_post (post_llama_ok [good_record] api_200)))
                  (main_init (stub_env None (library_post (post_llama_ok [good_record] api_200))))))) =
     Inr stub_music \<and>
   trace (run_daily_iteration (stub_env None (library_post (post_llama_ok [good_record] api_200)))
            (main_init (stub_env None (library_post (post_llama_ok [good_record] api_200))))) =
     [PrintError CvError, Sleep 86400]"
  by (simp add: capture_image_no_frame stub_get_new_audiobooks stub_get_new_music
      run_daily_iteration_collect_failure(2) [OF stub_collect_no_frame] main_init_stub)

text \<open>
  Claim C2, amended. Whenever collection raises, \<^verbatim>\<open>generate_daily_update\<close> raises the
  same exception, the tracker (the last update time and the seen-set) is what it was
  before the cycle, and the pass through the loop does nothing but print the error and
  sleep: no request to the language-model server, no report. Collection raises when
  the audiobook client raises, when the music client raises after the audiobooks were
  collected, and when the camera delivers no frame after both were collected.
\<close>

theorem collection_failure_aborts_cycle:
  "(fst (collect_new_data e w) = Inl err \<longrightarrow>
      fst (generate_daily_update e w) = Inl err \<and>
      tracker (run_daily_iteration e w) = tracker w \<and>
      trace (run_daily_iteration e w) = trace w @ [PrintError err, Sleep 86400]) \<and>
   (fst (audible e (clock e) (ticks w)) = Inl err1 \<longrightarrow> fst (collect_new_data e w) = Inl err1) \<and>
   (fst (get_new_audiobooks e w) = Inr audiobooks \<and>
    fst (spotify e (clock e) (ticks (snd (get_new_audiobooks e w)))) = Inl err2 \<longrightarrow>
      fst (collect_new_data e w) = Inl err2) \<and>
   (fst (get_new_audiobooks e w) = Inr audiobooks \<and>
    fst (get_new_music e (snd (get_new_audiobooks e w))) = Inr music \<and>
    capture_image e = None \<longrightarrow>
      fst (collect_new_data e w) = Inl CvError)"
proof (intro conjI impI)
  assume a: "fst (collect_new_data e w) = Inl err"
  then have g: "generate_daily_update e w = (Inl err, snd (collect_new_data e w))"
    by (rule generate_daily_update_collect_failure)
  then show "fst (generate_daily_update e w) = Inl err"
    by simp
  from g have r: "run_daily_iteration e w =
      emit (Sleep 86400) (emit (PrintError err) (snd (collect_new_data e w)))"
    by (simp add: run_daily_iteration_failure)
  show "tracker (run_daily_iteration e w) = tracker w"
    by (simp add: r tracker_emit collect_new_data_failure [OF a])
  show "trace (run_daily_iteration e w) = trace w @ [PrintError err, Sleep 86400]"
    by (simp add: r trace_emit collect_new_data_frame)
next
  assume "fst (audible e (clock e) (ticks w)) = Inl err1"
  then have "fst (get_new_audiobooks e w) = Inl err1"
    by (cases "audible e (clock e) (ticks w)") (simp add: get_new_audiobooks_def)
  then show "fst (collect_new_data e w) = Inl err1"
    by (simp add: collect_new_data_unfold)
next
  assume a: "fst (get_new_audiobooks e w) = Inr audiobooks \<and>
    fst (spotify e (clock e) (ticks (snd (get_new_audiobooks e w)))) = Inl err2"
  then have "fst (get_new_music e (snd (get_new_audiobooks e w))) = Inl err2"
    by (cases "spotify e (clock e) (ticks (snd (get_new_audiobooks e w)))")
      (simp add: get_new_music_def)
  with a show "fst (collect_new_data e w) = Inl err2"
    by (simp add: collect_new_data_unfold)
next
  assume a: "fst (get_new_audiobooks e w) = Inr audiobooks \<and>
    fst (get_new_music e (snd (get_new_audiobooks e w))) = Inr music \<and>
    capture_image e = None"
  then have "process_image (capture_image e) = Inl CvError"
    by (simp add: process_image_def)
  then have "fst (get_new_physical_books e (snd (get_new_music e (snd (get_new_audiobooks e w))))) =
      Inl CvError"
    by (rule arg_cong [where f = fst, OF get_new_physical_books_Inl, simplified])
  with a show "fst (collect_new_data e w) = Inl CvError"
    by (simp add: collect_new_data_unfold)
qed

theorem collection_failure_aborts_cycle_witness:
  "fst (generate_daily_update (stub_env None post_refused) (main_init (stub_env None post_refused))) =
     Inl CvError \<and>
   tracker (run_daily_iteration (stub_env None post_refused) (main_init (stub_env None post_refused))) =
     tracker (main_init (stub_env None post_refused)) \<and>
   trace (run_daily_iteration (stub_env None post_refused) (main_init (stub_env None post_refused))) =
     [PrintError CvError, Sleep 86400] \<and>
   fst (collect_new_data audible_down (main_init audible_down)) =
     Inl (ExternalError ''audible unavailable'') \<and>
   fst (collect_new_data spotify_down (main_init spotify_down)) =
     Inl (ExternalError ''spotify unavailable'')"
proof -
  let ?c = "stub_env None post_refused"
  note tc = collection_failure_aborts_cycle
    [where e = ?c and w = "main_init ?c" and err = CvError
       and audiobooks = stub_audiobooks and music = stub_music]
  note ta = collection_failure_aborts_cycle
    [where e = audible_down and w = "main_init audible_down"
       and ?err1.0 = "ExternalError ''audible unavailable''"]
  note ts = collection_failure_aborts_cycle
    [where e = spotify_down and w = "main_init spotify_down"
       and audiobooks = stub_audiobooks
       and ?err2.0 = "ExternalError ''spotify unavailable''"]
  from tc have f: "fst (collect_new_data ?c (main_init ?c)) = Inl CvError"
    by (simp add: stub_get_new_audiobooks stub_get_new_music capture_image_no_frame)
  with tc have c1: "fst (generate_daily_update ?c (main_init ?c)) = Inl CvError"
    and c2: "tracker (run_daily_iteration ?c (main_init ?c)) = tracker (main_init ?c)"
    and c3: "trace (run_daily_iteration ?c (main_init ?c)) = [PrintError CvError, Sleep 86400]"
    by (simp_all add: main_init_stub)
  from ta have c4: "fst (collect_new_data audible_down (main_init audible_down)) =
     Inl (ExternalError ''audible unavailable'')"
    by (simp add: audible_down_collect)
  from ts have c5: "fst (collect_new_data spotify_down (main_init spotify_down)) =
     Inl (ExternalError ''spotify unavailable'')"
    by (simp add: spotify_down_audiobooks spotify_down_spotify)
  from c1 c2 c3 c4 c5 show ?thesis
    by (intro conjI)
qed

section \<open>Failure of the language-model server\<close>

text \<open>
  Claim C3. When collection succeeds and the language-model server answers with a
  status outside 200..299, the pass through the loop posts the collected data to that
  server, prints the error and sleeps; it adds no post to the report endpoint to the
  trace; the last update time is unchanged; hence in the next cycle the audiobook delta
  of any well-formed library is computed against the old watermark, and holds every book
  added after it. The witness is a day on which nothing is new, so that the payload
  serialises and the server is asked; it answers 500.
\<close>

theorem disambiguation_failure_no_report_no_advance:
  assumes "fst (collect_new_data e w) = Inr data"
    and "requests_post e llama_url (LlamaPayload data llama_prompt) = Inr resp"
    and "status_code resp < 200 \<or> 300 \<le> status_code resp"
  shows "trace (run_daily_iteration e w) =
           trace w @ [Post llama_url (LlamaPayload data llama_prompt),
                      PrintError (LlamaServerError (resp_text resp)), Sleep 86400] \<and>
         filter is_report (trace (run_daily_iteration e w)) = filter is_report (trace w) \<and>
         last_update_time (tracker (run_daily_iteration e w)) = last_update_time (tracker w) \<and>
         (list_all2 is_book library books \<longrightarrow>
            new_audiobooks_of e' (last_update_time (tracker (run_daily_iteration e w))) library =
              Inr (map audiobook_item
                     (filter (observed_after (last_update_time (tracker w))) books)))"
proof -
  from assms(3) have "status_code resp \<noteq> 200"
    by auto
  with assms(2) have l: "fst (process_with_llama e data (snd (collect_new_data e w))) =
      Inl (LlamaServerError (resp_text resp))"
    by (rule process_with_llama_not_200)
  with assms(1) have f: "fst (generate_daily_update e w) = Inl (LlamaServerError (resp_text resp))"
    by (rule generate_daily_update_llama_failure)
  have s: "snd (generate_daily_update e w) =
      emit (Post llama_url (LlamaPayload data llama_prompt)) (snd (collect_new_data e w))"
    using assms(1) f by (rule generate_daily_update_later_failure)
  have r: "run_daily_iteration e w =
      emit (Sleep 86400) (emit (PrintError (LlamaServerError (resp_text resp)))
        (emit (Post llama_url (LlamaPayload data llama_prompt)) (snd (collect_new_data e w))))"
    by (simp add: run_daily_iteration_failure [OF f] s)
  have t: "trace (run_daily_iteration e w) =
           trace w @ [Post llama_url (LlamaPayload data llama_prompt),
                      PrintError (LlamaServerError (resp_text resp)), Sleep 86400]"
    by (simp add: r trace_emit collect_new_data_frame)
  have u: "last_update_time (tracker (run_daily_iteration e w)) = last_update_time (tracker w)"
    by (simp add: r tracker_emit collect_new_data_frame)
  have "filter is_report (trace (run_daily_iteration e w)) = filter is_report (trace w)"
    by (simp add: t llama_url_not_api_endpoint)
  with t u show ?thesis
    by (simp add: new_audiobooks_of_books)
qed

theorem disambiguation_failure_no_report_no_advance_witness:
  "trace (run_daily_iteration (quiet_env post_llama_500) (main_init (quiet_env post_llama_500))) =
     [Post llama_url (LlamaPayload empty_delta llama_prompt),
      PrintError (LlamaServerError ''Internal Server Error''), Sleep 86400] \<and>
   filter is_report
     (trace (run_daily_iteration (quiet_env post_llama_500)
               (main_init (quiet_env post_llama_500)))) = [] \<and>
   last_update_time
     (tracker (run_daily_iteration (quiet_env post_llama_500)
                 (main_init (quiet_env post_llama_500)))) = 1729913600000000 \<and>
   new_audiobooks_of scenario_env
     (last_update_time
        (tracker (run_daily_iteration (quiet_env post_llama_500)
                    (main_init (quiet_env post_llama_500)))))
     scenario_library = Inr (map audiobook_item scenario_books)"
proof -
  have h3: "status_code \<lparr>status_code = 500, resp_text = ''Internal Server Error'',
                 resp_json = Inl (ExternalError ''not JSON'')\<rparr> < 200 \<or>
            300 \<le> status_code \<lparr>status_code = 500, resp_text = ''Internal Server Error'',
                 resp_json = Inl (ExternalError ''not JSON'')\<rparr>"
    by simp
  note t = disambiguation_failure_no_report_no_advance
      [OF quiet_collect quiet_post_500 h3, where library = scenario_library
         and books = scenario_books and e' = scenario_env]
  from t have c1: "trace (run_daily_iteration (quiet_env post_llama_500)
            (main_init (quiet_env post_llama_500))) =
     [Post llama_url (LlamaPayload empty_delta llama_prompt),
      PrintError (LlamaServerError ''Internal Server Error''), Sleep 86400]"
    by (simp add: main_init_quiet)
  from t have c2: "filter is_report
     (trace (run_daily_iteration (quiet_env post_llama_500)
               (main_init (quiet_env post_llama_500)))) = []"
    by (simp add: main_init_quiet llama_url_not_api_endpoint)
  from t have c3: "last_update_time
     (tracker (run_daily_iteration (quiet_env post_llama_500)
                 (main_init (quiet_env post_llama_500)))) = 1729913600000000"
    by (simp add: main_init_quiet)
  have c4: "new_audiobooks_of scenario_env
     (last_update_time
        (tracker (run_daily_iteration (quiet_env post_llama_500)
                    (main_init (quiet_env post_llama_500)))))
     scenario_library = Inr (map audiobook_item scenario_books)"
    using t [THEN conjunct2, THEN conjunct2, THEN conjunct2, THEN mp, OF scenario_library_books]
    by (simp only: main_init_quiet scenario_books_after_init)
  from c1 c2 c3 c4 show ?thesis
    by (intro conjI)
qed

section \<open>Malformed records\<close>

text \<open>
  Claim C4, as stated, fails: the comprehensions have no handler around an item. On a
  day on which nothing is new the server is asked and answers 200 with two records, the
  first well-formed, the second with a timestamp that \<^verbatim>\<open>fromisoformat\<close> rejects. The \<^verbatim>\<open>ValueError\<close> ends the cycle: the pass
  prints it and sleeps, no report is posted (the well-formed record is lost with the
  other), and the last update time stays.
\<close>

theorem malformed_record_aborts_cycle_counterexample:
  "llama_item (quiet_env (post_llama_ok [good_record, bad_record] api_200)) good_record =
     Inr (Some dune_item) \<and>
   llama_item (quiet_env (post_llama_ok [good_record, bad_record] api_200)) bad_record =
     Inl ValueError \<and>
   fst (process_with_llama (quiet_env (post_llama_ok [good_record, bad_record] api_200))
          empty_delta
          (snd (collect_new_data (quiet_env (post_llama_ok [good_record, bad_record] api_200))
                  (main_init (quiet_env (post_llama_ok [good_record, bad_record] api_200)))))) =
     Inr [good_record, bad_record] \<and>
   trace (run_daily_iteration (quiet_env (post_llama_ok [good_record, bad_record] api_200))
            (main_init (quiet_env (post_llama_ok [good_record, bad_record] api_200)))) =
     [Post llama_url (LlamaPayload empty_delta llama_prompt), PrintError ValueError, Sleep 86400] \<and>
   last_update_time
     (tracker (run_daily_iteration (quiet_env (post_llama_ok [good_record, bad_record] api_200))
                 (main_init (quiet_env (post_llama_ok [good_record, bad_record] api_200))))) =
     1729913600000000"
  using run_daily_iteration_parse_failure
    [OF quiet_collect [of "post_llama_ok [good_record, bad_record] api_200"]
        quiet_process_with_llama quiet_comprehension_bad]
  by (simp add: quiet_llama_item_good quiet_llama_item_bad quiet_process_with_llama main_init_quiet)

text \<open>
  Claim C4, amended. When one record of the server's answer fails to parse, the
  comprehension over the answer raises, the pass through the loop posts only to the
  language-model server, prints the error and sleeps, and the last update time is
  unchanged. Likewise one raw audiobook or track whose element of the comprehension
  raises makes \<^verbatim>\<open>get_new_audiobooks\<close> or \<^verbatim>\<open>get_new_music\<close> raise as a whole: no item of
  that source's delta is kept.
\<close>

theorem malformed_record_aborts_cycle:
  "(fst (collect_new_data e w) = Inr data \<and>
    fst (process_with_llama e data (snd (collect_new_data e w))) = Inr processed_data \<and>
    item \<in> set processed_data \<and> llama_item e item = Inl err0 \<longrightarrow>
      (\<exists>err. comprehension (llama_item e) processed_data = Inl err \<and>
             trace (run_daily_iteration e w) =
               trace w @ [Post llama_url (LlamaPayload data llama_prompt),
                          PrintError err, Sleep 86400] \<and>
             last_update_time (tracker (run_daily_iteration e w)) = last_update_time (tracker w))) \<and>
   (book \<in> set library \<and> audiobook_of e lut book = Inl err1 \<longrightarrow>
      (\<exists>err. new_audiobooks_of e lut library = Inl err)) \<and>
   (track \<in> set recent_tracks \<and> track_of e lut track = Inl err2 \<longrightarrow>
      (\<exists>err. new_music_of e lut recent_tracks = Inl err))"
proof (intro conjI impI)
  assume a: "fst (collect_new_data e w) = Inr data \<and>
    fst (process_with_llama e data (snd (collect_new_data e w))) = Inr processed_data \<and>
    item \<in> set processed_data \<and> llama_item e item = Inl err0"
  then obtain err where err: "comprehension (llama_item e) processed_data = Inl err"
    using comprehension_fails [of item processed_data "llama_item e" err0] by blast
  with a have f: "fst (generate_daily_update e w) = Inl err"
    by (simp add: generate_daily_update_parse_failure)
  have s: "snd (generate_daily_update e w) =
      emit (Post llama_url (LlamaPayload data llama_prompt)) (snd (collect_new_data e w))"
    using a f by (simp add: generate_daily_update_later_failure)
  have r: "run_daily_iteration e w =
      emit (Sleep 86400) (emit (PrintError err)
        (emit (Post llama_url (LlamaPayload data llama_prompt)) (snd (collect_new_data e w))))"
    by (simp add: run_daily_iteration_failure [OF f] s)
  have "trace (run_daily_iteration e w) =
               trace w @ [Post llama_url (LlamaPayload data llama_prompt),
                          PrintError err, Sleep 86400]"
    by (simp add: r trace_emit collect_new_data_frame)
  moreover have "last_update_time (tracker (run_daily_iteration e w)) = last_update_time (tracker w)"
    by (simp add: r tracker_emit collect_new_data_frame)
  ultimately show "\<exists>err. comprehension (llama_item e) processed_data = Inl err \<and>
             trace (run_daily_iteration e w) =
               trace w @ [Post llama_url (LlamaPayload data llama_prompt),
                          PrintError err, Sleep 86400] \<and>
             last_update_time (tracker (run_daily_iteration e w)) = last_update_time (tracker w)"
    using err by blast
next
  assume "book \<in> set library \<and> audiobook_of e lut book = Inl err1"
  then show "\<exists>err. new_audiobooks_of e lut library = Inl err"
    unfolding new_audiobooks_of_def
    using comprehension_fails [of book library "audiobook_of e lut" err1] by simp
next
  assume "track \<in> set recent_tracks \<and> track_of e lut track = Inl err2"
  then show "\<exists>err. new_music_of e lut recent_tracks = Inl err"
    unfolding new_music_of_def
    using comprehension_fails [of track recent_tracks "track_of e lut" err2] by simp
qed

theorem malformed_record_aborts_cycle_witness:
  "(\<exists>err. comprehension
            (llama_item (quiet_env (post_llama_ok [good_record, bad_record] api_200)))
            [good_record, bad_record] = Inl err \<and>
          trace (run_daily_iteration (quiet_env (post_llama_ok [good_record, bad_record] api_200))
                   (main_init (quiet_env (post_llama_ok [good_record, bad_record] api_200)))) =
            [Post llama_url (LlamaPayload empty_delta llama_prompt), PrintError err, Sleep 86400] \<and>
          last_update_time
            (tracker (run_daily_iteration
                        (quiet_env (post_llama_ok [good_record, bad_record] api_200))
                        (main_init (quiet_env (post_llama_ok [good_record, bad_record] api_200))))) =
            1729913600000000) \<and>
   (\<exists>err. new_audiobooks_of scenario_env 1730332800000000 (scenario_library @ [malformed_book]) =
            Inl err) \<and>
   (\<exists>err. new_music_of scenario_env 1730332800000000 (scenario_recent @ [malformed_track]) =
            Inl err)"
proof -
  let ?e = "quiet_env (post_llama_ok [good_record, bad_record] api_200)"
  note t = malformed_record_aborts_cycle
    [where e = ?e and w = "main_init ?e" and data = empty_delta
       and processed_data = "[good_record, bad_record]" and item = bad_record
       and ?err0.0 = ValueError]
  note t' = malformed_record_aborts_cycle
    [where e = scenario_env
       and track = malformed_track and recent_tracks = "scenario_recent @ [malformed_track]"
       and lut = 1730332800000000 and ?err2.0 = TypeError]
  from t have c1: "\<exists>err. comprehension (llama_item ?e) [good_record, bad_record] = Inl err \<and>
          trace (run_daily_iteration ?e (main_init ?e)) =
            [Post llama_url (LlamaPayload empty_delta llama_prompt), PrintError err, Sleep 86400] \<and>
          last_update_time (tracker (run_daily_iteration ?e (main_init ?e))) = 1729913600000000"
    by (simp add: quiet_collect quiet_process_with_llama quiet_llama_item_bad main_init_quiet)
  have c2: "\<exists>err. new_audiobooks_of scenario_env 1730332800000000
                    (scenario_library @ [malformed_book]) = Inl err"
    using malformed_record_aborts_cycle
      [where e = scenario_env and book = malformed_book
         and library = "scenario_library @ [malformed_book]"
         and lut = 1730332800000000 and ?err1.0 = "KeyError ''author''"]
    by (simp add: audiobook_of_malformed_book)
  from t' have c3: "\<exists>err. new_music_of scenario_env 1730332800000000
                    (scenario_recent @ [malformed_track]) = Inl err"
    by (simp add: track_of_malformed_track)
  from c1 c2 c3 show ?thesis
    by (intro conjI)
qed

section \<open>The scalar watermark\<close>

text \<open>
  Claim C6. For a library whose records hold a title, an author and a datetime (and a
  list of tracks likewise), the delta is exactly the items of the records whose datetime
  is strictly after the watermark, in the order of the library: a record at or before
  the watermark is left out. Whatever the records are, every item of a delta that is
  returned has a timestamp strictly after the watermark. The delta is a function of the
  library and the watermark; \<^verbatim>\<open>get_new_audiobooks\<close> and \<^verbatim>\<open>get_new_music\<close> apply it to
  what the client returns and leave the tracker and the trace as they were (only the
  count of clock readings, which belongs to the client, changes).
\<close>

theorem scalar_delta_strictly_after_watermark:
  "(list_all2 is_book library books \<longrightarrow>
      new_audiobooks_of e lut library =
        Inr (map audiobook_item (filter (observed_after lut) books))) \<and>
   (list_all2 is_track recent_tracks tracks \<longrightarrow>
      new_music_of e lut recent_tracks =
        Inr (map music_item (filter (observed_after lut) tracks))) \<and>
   (new_audiobooks_of e lut library = Inr items \<longrightarrow> (\<forall>i \<in> set items. lut < timestamp i)) \<and>
   (new_music_of e lut recent_tracks = Inr items' \<longrightarrow> (\<forall>i \<in> set items'. lut < timestamp i)) \<and>
   (audible e (clock e) (ticks w) = (Inr library, k) \<longrightarrow>
      get_new_audiobooks e w =
        (new_audiobooks_of e (last_update_time (tracker w)) library, w\<lparr>ticks := k\<rparr>)) \<and>
   (spotify e (clock e) (ticks w) = (Inr recent_tracks, k') \<longrightarrow>
      get_new_music e w =
        (new_music_of e (last_update_time (tracker w)) recent_tracks, w\<lparr>ticks := k'\<rparr>)) \<and>
   tracker (snd (get_new_audiobooks e w)) = tracker w \<and>
   trace (snd (get_new_audiobooks e w)) = trace w \<and>
   tracker (snd (get_new_music e w)) = tracker w \<and>
   trace (snd (get_new_music e w)) = trace w"
proof -
  have "\<forall>i \<in> set items. lut < timestamp i" if "new_audiobooks_of e lut library = Inr items"
    using that unfolding new_audiobooks_of_def
    by (rule comprehension_all) (rule audiobook_of_after)
  moreover
  have "\<forall>i \<in> set items'. lut < timestamp i" if "new_music_of e lut recent_tracks = Inr items'"
    using that unfolding new_music_of_def
    by (rule comprehension_all) (rule track_of_after)
  moreover
  have "get_new_audiobooks e w =
        (new_audiobooks_of e (last_update_time (tracker w)) library, w\<lparr>ticks := k\<rparr>)"
    if "audible e (clock e) (ticks w) = (Inr library, k)"
    using that by (simp add: get_new_audiobooks_def)
  moreover
  have "get_new_music e w =
        (new_music_of e (last_update_time (tracker w)) recent_tracks, w\<lparr>ticks := k'\<rparr>)"
    if "spotify e (clock e) (ticks w) = (Inr recent_tracks, k')"
    using that by (simp add: get_new_music_def)
  ultimately show ?thesis
    using new_audiobooks_of_books [of library books e lut]
      new_music_of_tracks [of recent_tracks tracks e lut]
      get_new_audiobooks_frame [of e w] get_new_music_frame [of e w]
    by blast
qed

theorem scalar_delta_strictly_after_watermark_witness:
  "new_audiobooks_of scenario_env 1730332800000000 scenario_library = Inr [dune_item] \<and>
   new_music_of scenario_env 1730332800000000 scenario_recent = Inr [song_b_item] \<and>
   1730332800000000 < timestamp dune_item \<and>
   1730332800000000 < timestamp song_b_item \<and>
   get_new_audiobooks scenario_env scenario_world = (Inr [dune_item], scenario_world) \<and>
   get_new_music scenario_env scenario_world = (Inr [song_b_item], scenario_world)"
proof -
  note t = scalar_delta_strictly_after_watermark
    [where library = scenario_library and books = scenario_books
       and recent_tracks = scenario_recent and tracks = scenario_tracks
       and e = scenario_env and lut = 1730332800000000
       and items = "[dune_item]" and items' = "[song_b_item]"
       and w = scenario_world and k = "Suc 0" and k' = "Suc 0"]
  have lut: "last_update_time (tracker scenario_world) = 1730332800000000"
    by (simp add: scenario_world_def)
  have w: "scenario_world\<lparr>ticks := Suc 0\<rparr> = scenario_world"
    by (simp add: scenario_world_def)
  have a: "audible scenario_env (clock scenario_env) (ticks scenario_world) = (Inr scenario_library, Suc 0)"
    by (simp add: scenario_env_def scenario_world_def fixed_client_def)
  have s: "spotify scenario_env (clock scenario_env) (ticks scenario_world) = (Inr scenario_recent, Suc 0)"
    by (simp add: scenario_env_def scenario_world_def fixed_client_def)
  from t have c1: "new_audiobooks_of scenario_env 1730332800000000 scenario_library = Inr [dune_item]"
    by (simp add: scenario_library_books scenario_books_after)
  from t have c2: "new_music_of scenario_env 1730332800000000 scenario_recent = Inr [song_b_item]"
    by (simp add: scenario_recent_tracks scenario_tracks_after)
  from t c1 have c3: "1730332800000000 < timestamp dune_item"
    by simp
  from t c2 have c4: "1730332800000000 < timestamp song_b_item"
    by simp
  from t a have c5: "get_new_audiobooks scenario_env scenario_world = (Inr [dune_item], scenario_world)"
    by (simp add: lut w c1)
  from t s have c6: "get_new_music scenario_env scenario_world = (Inr [song_b_item], scenario_world)"
    by (simp add: lut w c2)
  from c1 c2 c3 c4 c5 c6 show ?thesis
    by simp
qed

section \<open>The two watermarks in a failed cycle\<close>

text \<open>
  Claim C7. When the scan returns titles and collection succeeds, but
  \<^verbatim>\<open>generate_daily_update\<close> raises afterwards (the post to the language-model server
  raises, the server fails, or its answer does not parse), the seen-set after the cycle
  is the set of titles of the new scan, while the last update time is what it was before
  the cycle. The witness is the environment of the source with two books on the shelf:
  the payload holds items, the post raises \<^verbatim>\<open>TypeError\<close>, and the two titles are in the
  seen-set all the same.
\<close>

theorem seen_set_committed_before_disambiguation:
  assumes "process_image (capture_image e) = Inr titles"
    and "fst (collect_new_data e w) = Inr data"
    and "fst (generate_daily_update e w) = Inl err"
  shows "last_scan (bookshelf_scanner (tracker (snd (generate_daily_update e w)))) = set titles \<and>
         last_update_time (tracker (snd (generate_daily_update e w))) = last_update_time (tracker w) \<and>
         last_scan (bookshelf_scanner (tracker (run_daily_iteration e w))) = set titles \<and>
         last_update_time (tracker (run_daily_iteration e w)) = last_update_time (tracker w)"
proof -
  have s: "snd (generate_daily_update e w) =
      emit (Post llama_url (LlamaPayload data llama_prompt)) (snd (collect_new_data e w))"
    using assms(2,3) by (rule generate_daily_update_later_failure)
  have "tracker (run_daily_iteration e w) = tracker (snd (collect_new_data e w))"
    by (simp add: run_daily_iteration_failure [OF assms(3)] s tracker_emit)
  moreover have "tracker (snd (generate_daily_update e w)) = tracker (snd (collect_new_data e w))"
    by (simp add: s tracker_emit)
  ultimately show ?thesis
    by (simp add: collect_new_data_success [OF assms(2,1)] collect_new_data_frame)
qed

theorem seen_set_committed_before_disambiguation_witness:
  "fst (generate_daily_update (stub_env (Some frame_two_books) (library_post post_llama_500))
          (main_init (stub_env (Some frame_two_books) (library_post post_llama_500)))) =
     Inl TypeError \<and>
   last_scan (bookshelf_scanner (tracker (snd (generate_daily_update
       (stub_env (Some frame_two_books) (library_post post_llama_500))
       (main_init (stub_env (Some frame_two_books) (library_post post_llama_500))))))) =
     {''Book 1'', ''Book 2''} \<and>
   last_update_time (tracker (snd (generate_daily_update
       (stub_env (Some frame_two_books) (library_post post_llama_500))
       (main_init (stub_env (Some frame_two_books) (library_post post_llama_500)))))) =
     1729913600000000 \<and>
   last_scan (bookshelf_scanner (tracker (run_daily_iteration
       (stub_env (Some frame_two_books) (library_post post_llama_500))
       (main_init (stub_env (Some frame_two_books) (library_post post_llama_500)))))) =
     {''Book 1'', ''Book 2''} \<and>
   last_update_time (tracker (run_daily_iteration
       (stub_env (Some frame_two_books) (library_post post_llama_500))
       (main_init (stub_env (Some frame_two_books) (library_post post_llama_500))))) =
     1729913600000000"
  using seen_set_committed_before_disambiguation
    [OF process_image_two_books stub_collect stub_generate_unserialisable, of post_llama_500]
  by (simp add: main_init_stub insert_commute stub_generate_unserialisable)

section \<open>Failure of the report endpoint\<close>



section \<open>The scheduler loop\<close>

text \<open>
  Claim C9. Every pass through the loop, in every environment and state, appends events
  that end with \<^verbatim>\<open>time.sleep(86400)\<close>, a sleep of 24 hours, and contain no other sleep. When
  \<^verbatim>\<open>generate_daily_update\<close> or \<^verbatim>\<open>send_update_to_api\<close> raises, the event before the sleep is
  the printed error: the exception is caught and logged, and the pass ends like any other.
  The state after \<open>n + 1\<close> passes is a pass from the state after \<open>n\<close> passes, whatever
  happened in them, and the sleeps of the first \<open>n\<close> passes are \<open>n\<close> sleeps of 86400
  seconds: no shorter retry and no back-off. (The exceptions of the model are subclasses
  of \<^verbatim>\<open>Exception\<close>, which is what the handler catches.)
\<close>

theorem scheduler_catches_and_sleeps:
  "(\<exists>evs. trace (run_daily_iteration e w) = trace w @ evs @ [Sleep 86400] \<and>
         (\<forall>ev \<in> set evs. \<not> is_sleep ev) \<and>
         (\<forall>err. fst (generate_daily_update e w) = Inl err \<longrightarrow>
                evs \<noteq> [] \<and> last evs = PrintError err) \<and>
         (\<forall>err update w1. generate_daily_update e w = (Inr update, w1) \<and>
             fst (send_update_to_api e update w1) = Inl err \<longrightarrow>
                evs \<noteq> [] \<and> last evs = PrintError err)) \<and>
   run_daily (Suc n) envs w = run_daily_iteration (envs n) (run_daily n envs w) \<and>
   filter is_sleep (trace (run_daily n envs w)) =
     filter is_sleep (trace w) @ replicate n (Sleep 86400)"
  using run_daily_iteration_events [of e w] run_daily_sleeps [of n envs w] by simp

theorem scheduler_catches_and_sleeps_witness:
  "(\<exists>evs. trace (run_daily_iteration (stub_env None post_refused)
                    (main_init (stub_env None post_refused))) = evs @ [Sleep 86400] \<and>
          (\<forall>ev \<in> set evs. \<not> is_sleep ev) \<and> last evs = PrintError CvError) \<and>
   (\<exists>evs. trace (run_daily_iteration (quiet_env (post_llama_ok [good_record] api_503))
                    (main_init (quiet_env (post_llama_ok [good_record] api_503))))
            = evs @ [Sleep 86400] \<and>
          (\<forall>ev \<in> set evs. \<not> is_sleep ev) \<and>
          last evs = PrintError TypeError) \<and>
   filter is_sleep (trace (run_daily 3 (\<lambda>i. stub_env None post_refused)
                             (main_init (stub_env None post_refused)))) =
     [Sleep 86400, Sleep 86400, Sleep 86400]"
proof -
  let ?a = "stub_env None post_refused"
  let ?b = "quiet_env (post_llama_ok [good_record] api_503)"
  note ta = scheduler_catches_and_sleeps [where e = ?a and w = "main_init ?a" and n = 3
      and envs = "\<lambda>i. ?a"]
  note tb = scheduler_catches_and_sleeps [where e = ?b and w = "main_init ?b" and n = 0
      and envs = "\<lambda>i. ?b"]
  have gb: "generate_daily_update ?b (main_init ?b) =
              (Inr update_quiet, snd (generate_daily_update ?b (main_init ?b)))"
    using quiet_generate [of api_503] by (cases "generate_daily_update ?b (main_init ?b)") simp
  have sb: "fst (send_update_to_api ?b update_quiet (snd (generate_daily_update ?b (main_init ?b)))) =
      Inl TypeError"
    by (simp add: send_update_to_api_def Let_def quiet_env_def stub_env_def library_post_def
        json_serialisable_def)
  from ta obtain evs where a:
    "trace (run_daily_iteration ?a (main_init ?a)) = trace (main_init ?a) @ evs @ [Sleep 86400]"
    "\<forall>ev \<in> set evs. \<not> is_sleep ev"
    "\<forall>err. fst (generate_daily_update ?a (main_init ?a)) = Inl err \<longrightarrow>
       evs \<noteq> [] \<and> last evs = PrintError err"
    by blast
  from a(3) stub_generate_no_frame [of post_refused] have "last evs = PrintError CvError"
    by blast
  with a(1,2) have c1: "\<exists>evs. trace (run_daily_iteration ?a (main_init ?a)) = evs @ [Sleep 86400] \<and>
          (\<forall>ev \<in> set evs. \<not> is_sleep ev) \<and> last evs = PrintError CvError"
    by (simp add: main_init_stub)
  from tb obtain evs' where b:
    "trace (run_daily_iteration ?b (main_init ?b)) = trace (main_init ?b) @ evs' @ [Sleep 86400]"
    "\<forall>ev \<in> set evs'. \<not> is_sleep ev"
    "\<forall>err update w1. generate_daily_update ?b (main_init ?b) = (Inr update, w1) \<and>
        fst (send_update_to_api ?b update w1) = Inl err \<longrightarrow>
          evs' \<noteq> [] \<and> last evs' = PrintError err"
    by blast
  from b(3) gb sb have "last evs' = PrintError TypeError"
    by blast
  with b(1,2) have c2: "\<exists>evs. trace (run_daily_iteration ?b (main_init ?b)) = evs @ [Sleep 86400] \<and>
          (\<forall>ev \<in> set evs. \<not> is_sleep ev) \<and> last evs = PrintError TypeError"
    by (simp add: main_init_quiet)
  from ta have c3: "filter is_sleep (trace (run_daily 3 (\<lambda>i. ?a) (main_init ?a))) =
     [Sleep 86400, Sleep 86400, Sleep 86400]"
    by (simp add: main_init_stub numeral_3_eq_3)
  from c1 c2 c3 show ?thesis
    by (intro conjI)
qed

section \<open>Items of the vision source\<close>

text \<open>
  Claim C10. Whenever the scan returns titles, every item that
  \<^verbatim>\<open>get_new_physical_books\<close> builds has creator \<^verbatim>\<open>Unknown\<close> and type
  \<^verbatim>\<open>physical_book\<close>, and its timestamp is a reading of the clock made while the items
  are built (item \<open>i\<close> gets the \<open>i\<close>-th reading after entry), not a time carried by the
  scan. The titles of the items are pairwise distinct and are, as a set, the titles of the
  snapshot minus the prior seen-set: the snapshot is turned into a set before the
  difference is taken, and \<^verbatim>\<open>list(set(ts) - seen)\<close> has no duplicate for any list \<open>ts\<close>,
  with or without repeated titles.
\<close>

theorem physical_books_normalised:
  assumes "process_image (capture_image e) = Inr titles"
  shows "\<exists>items w'. get_new_physical_books e w = (Inr items, w') \<and>
           (\<forall>i < length items.
              creator (items ! i) = ''Unknown'' \<and>
              item_type (items ! i) = ''physical_book'' \<and>
              timestamp (items ! i) = clock e (ticks w + i)) \<and>
           ticks w' = ticks w + length items \<and>
           distinct (map title items) \<and>
           set (map title items) = set titles - last_scan (bookshelf_scanner (tracker w)) \<and>
           distinct (list_of_set_diff ts seen) \<and>
           set (list_of_set_diff ts seen) = set ts - seen"
proof -
  define new where "new = list_of_set_diff titles (last_scan (bookshelf_scanner (tracker w)))"
  define items where
    "items = map (\<lambda>(k, t). physical_book e k t) (zip [ticks w..<ticks w + length new] new)"
  have len: "length items = length new"
    by (simp add: items_def)
  have nth: "items ! i = physical_book e (ticks w + i) (new ! i)" if "i < length items" for i
    using that by (simp add: items_def)
  have titles: "map title items = new"
    by (rule nth_equalityI) (simp_all add: len nth physical_book_def)
  have "get_new_physical_books e w = (Inr items,
      w\<lparr>tracker := (tracker w)\<lparr>bookshelf_scanner := (bookshelf_scanner (tracker w))\<lparr>last_scan := set titles\<rparr>\<rparr>,
        ticks := ticks w + length new\<rparr>)"
    unfolding items_def new_def by (rule get_new_physical_books_Inr [OF assms])
  moreover have "\<forall>i < length items.
              creator (items ! i) = ''Unknown'' \<and>
              item_type (items ! i) = ''physical_book'' \<and>
              timestamp (items ! i) = clock e (ticks w + i)"
    by (simp add: nth physical_book_def)
  moreover have "distinct (map title items)"
    by (simp add: titles new_def distinct_list_of_set_diff)
  moreover have "set (map title items) = set titles - last_scan (bookshelf_scanner (tracker w))"
    by (simp only: titles new_def set_list_of_set_diff)
  ultimately show ?thesis
    by (simp add: len distinct_list_of_set_diff set_list_of_set_diff)
qed

theorem physical_books_normalised_witness:
  "\<exists>items w'. get_new_physical_books (stub_env (Some frame_two_books) post_refused)
                 (main_init (stub_env (Some frame_two_books) post_refused)) = (Inr items, w') \<and>
           (\<forall>i < length items.
              creator (items ! i) = ''Unknown'' \<and>
              item_type (items ! i) = ''physical_book'' \<and>
              timestamp (items ! i) = example_clock (1 + i)) \<and>
           ticks w' = 1 + length items \<and>
           distinct (map title items) \<and>
           set (map title items) = {''Book 1'', ''Book 2''} \<and>
           distinct (list_of_set_diff [''Dune'', ''Dune'', ''Foundation''] {''Foundation''}) \<and>
           set (list_of_set_diff [''Dune'', ''Dune'', ''Foundation''] {''Foundation''}) = {''Dune''}"
  using physical_books_normalised [OF process_image_two_books [of post_refused],
      where w = "main_init (stub_env (Some frame_two_books) post_refused)"
        and ts = "[''Dune'', ''Dune'', ''Foundation'']" and seen = "{''Foundation''}"]
  by (simp add: main_init_def MediaTracker_init_def BookshelfScanner_init_def stub_env_def
      insert_Diff_if)

end
